theory Spec2Isabelle
  imports Main "HOL-Library.Word"
begin

unbundle bit_operations_syntax

section \<open>The user32 clipboard client (dlls/user32/clipboard.c)\<close>

subsection \<open>Basic types and constants\<close>

type_synonym byte = "8 word"
type_synonym UINT = nat      \<comment> \<open>format identifiers and sizes; no arithmetic wraps on them here\<close>
type_synonym HWND = nat      \<comment> \<open>window handle, 0 is the null window\<close>
type_synonym NTSTATUS = nat  \<comment> \<open>0 is success\<close>

text \<open>The format identifiers of winuser.h (the header is not part of the file verified
  here; these are the values of the Win32 API).\<close>

definition CF_TEXT :: UINT where "CF_TEXT = 1"
definition CF_BITMAP :: UINT where "CF_BITMAP = 2"
definition CF_METAFILEPICT :: UINT where "CF_METAFILEPICT = 3"
definition CF_OEMTEXT :: UINT where "CF_OEMTEXT = 7"
definition CF_DIB :: UINT where "CF_DIB = 8"
definition CF_PALETTE :: UINT where "CF_PALETTE = 9"
definition CF_UNICODETEXT :: UINT where "CF_UNICODETEXT = 13"
definition CF_ENHMETAFILE :: UINT where "CF_ENHMETAFILE = 14"
definition CF_LOCALE :: UINT where "CF_LOCALE = 16"
definition CF_DIBV5 :: UINT where "CF_DIBV5 = 17"
definition CF_MAX :: UINT where "CF_MAX = 18"
definition CF_DSPBITMAP :: UINT where "CF_DSPBITMAP = 130"
definition CF_DSPMETAFILEPICT :: UINT where "CF_DSPMETAFILEPICT = 131"
definition CF_DSPENHMETAFILE :: UINT where "CF_DSPENHMETAFILE = 142"

definition STATUS_SUCCESS :: NTSTATUS where "STATUS_SUCCESS = 0"
definition STATUS_BUFFER_OVERFLOW :: NTSTATUS where "STATUS_BUFFER_OVERFLOW = 2147483653"

text \<open>A handle is the null handle, a fixed global memory block (the handle is the block,
  \<open>GMEM_FIXED\<close>) with its contents, or an object of the graphics subsystem.\<close>

datatype HANDLE = NULL | HGLOBAL "byte list" | HGDIOBJ nat

text \<open>The \<open>BITMAP\<close> header of wingdi.h: four \<open>LONG\<close>s, two \<open>WORD\<close>s and the pointer
  \<open>bmBits\<close> (0 is the null pointer).\<close>

record BITMAP =
  bmType :: "32 word"
  bmWidth :: "32 word"
  bmHeight :: "32 word"
  bmWidthBytes :: "32 word"
  bmPlanes :: "16 word"
  bmBitsPixel :: "16 word"
  bmBits :: nat

text \<open>What the codec layer uses from outside this file: the sizes and layouts of the
  structures it casts memory blocks to (they depend on the pointer width), the allocator and
  the graphics subsystem. They are parameters of the model.\<close>

record platform =
  sizeof_BITMAP :: nat
  read_BITMAP :: "byte list \<Rightarrow> BITMAP"            \<comment> \<open>a block read through a \<open>BITMAP *\<close>\<close>
  write_BITMAP :: "BITMAP \<Rightarrow> byte list"
  sizeof_METAFILEPICT :: nat
  read_hMF :: "byte list \<Rightarrow> HANDLE"               \<comment> \<open>\<open>mf->hMF\<close> of a block read as \<open>METAFILEPICT\<close>\<close>
  write_hMF :: "byte list \<Rightarrow> HANDLE \<Rightarrow> byte list"  \<comment> \<open>the block after \<open>mf->hMF = h\<close>\<close>
  GlobalAlloc_ok :: "nat \<Rightarrow> bool"                  \<comment> \<open>does an allocation of that size succeed\<close>
  GetObjectW :: "HANDLE \<Rightarrow> BITMAP option"
  GetBitmapBits :: "HANDLE \<Rightarrow> nat \<Rightarrow> byte list"
  GetPaletteEntries :: "HANDLE \<Rightarrow> byte list list"  \<comment> \<open>the entries, four bytes each; [] on failure\<close>
  GetEnhMetaFileBits :: "HANDLE \<Rightarrow> byte list"      \<comment> \<open>[] on failure\<close>
  GetMetaFileBitsEx :: "HANDLE \<Rightarrow> byte list"       \<comment> \<open>[] on failure\<close>
  CreateBitmapIndirect :: "BITMAP \<Rightarrow> byte list \<Rightarrow> HANDLE"
  CreatePalette :: "byte list \<Rightarrow> HANDLE"
  SetEnhMetaFileBits :: "byte list \<Rightarrow> HANDLE"
  SetMetaFileBitsEx :: "byte list \<Rightarrow> HANDLE"
  HeapAlloc_ok :: "nat \<Rightarrow> bool"
  GetUserDefaultLCID :: "32 word"
  GetLocaleInfoW :: "32 word \<Rightarrow> nat \<Rightarrow> nat option"   \<comment> \<open>locale, type; the number, \<open>None\<close> on failure\<close>
  MultiByteToWideChar :: "nat \<Rightarrow> byte list \<Rightarrow> 16 word list"   \<comment> \<open>code page, source\<close>
  WideCharToMultiByte :: "nat \<Rightarrow> 16 word list \<Rightarrow> byte list"
  bitmap_info_size :: "byte list \<Rightarrow> nat"               \<comment> \<open>of user_private.h, with \<open>DIB_RGB_COLORS\<close>\<close>
  CreateDIBitmap :: "byte list \<Rightarrow> HANDLE"                \<comment> \<open>from a locked \<open>BITMAPINFO\<close> block\<close>
  GetDIBits_header :: "HANDLE \<Rightarrow> nat \<Rightarrow> byte list option"
    \<comment> \<open>the header \<open>GetDIBits\<close> fills for a bitmap, given \<open>bV5Size\<close>; \<open>None\<close> on failure\<close>
  GetDIBits_bits :: "HANDLE \<Rightarrow> byte list \<Rightarrow> byte list"   \<comment> \<open>the bits it writes after the header\<close>
  GetWinMetaFileBits :: "HANDLE \<Rightarrow> byte list"             \<comment> \<open>[] on failure\<close>
  GetEnhMetaFileHeader_frame :: "HANDLE \<Rightarrow> (32 word \<times> 32 word \<times> 32 word \<times> 32 word) option"
    \<comment> \<open>\<open>rclFrame\<close>: left, top, right, bottom\<close>
  write_METAFILEPICT :: "32 word \<Rightarrow> 32 word \<Rightarrow> 32 word \<Rightarrow> HANDLE \<Rightarrow> byte list"
  SetWinMetaFileBits :: "byte list \<Rightarrow> byte list \<Rightarrow> HANDLE"    \<comment> \<open>bits, the \<open>METAFILEPICT\<close> block\<close>

text \<open>The global heap on the handle model: \<open>GlobalSize\<close> and \<open>GlobalLock\<close> of something
  that is not a memory block fail (0, null); \<open>GlobalReAlloc\<close> to a smaller size keeps the
  prefix (the bytes of a grown block are not specified by the API; zero here).\<close>

definition GlobalSize :: "HANDLE \<Rightarrow> nat" where
  "GlobalSize h = (case h of HGLOBAL bs \<Rightarrow> length bs | _ \<Rightarrow> 0)"

definition GlobalLock :: "HANDLE \<Rightarrow> byte list option" where
  "GlobalLock h = (case h of HGLOBAL bs \<Rightarrow> Some bs | _ \<Rightarrow> None)"

definition GlobalReAlloc :: "byte list \<Rightarrow> nat \<Rightarrow> byte list" where
  "GlobalReAlloc bs n = take n bs @ replicate (n - length bs) 0"

subsection \<open>Codec layer\<close>

text \<open>C's \<open>abs\<close> on a 32-bit \<open>int\<close> (two's complement, so the most negative value maps
  to itself).\<close>

definition abs32 :: "32 word \<Rightarrow> 32 word" where
  "abs32 x = (if sint x < 0 then - x else x)"

text \<open>\<open>LOGPALETTE\<close>: \<open>WORD palVersion; WORD palNumEntries; PALETTEENTRY palPalEntry[1]\<close>,
  little endian, four bytes an entry.\<close>

definition sizeof_LOGPALETTE :: nat where "sizeof_LOGPALETTE = 8"

definition offsetof_palPalEntry :: "nat \<Rightarrow> nat" where
  "offsetof_palPalEntry n = 4 + 4 * n"

definition le16 :: "nat \<Rightarrow> byte list" where
  "le16 n = [of_nat (n mod 256), of_nat ((n div 256) mod 256)]"

definition palNumEntries :: "byte list \<Rightarrow> nat" where
  "palNumEntries bs = unat (bs ! 2) + 256 * unat (bs ! 3)"

text \<open>A block of \<open>n\<close> bytes into which \<open>bs\<close> was copied from its start: what is not
  written keeps what the allocator left there (zero here).\<close>

definition block_of :: "nat \<Rightarrow> byte list \<Rightarrow> byte list" where
  "block_of n bs = take n bs @ replicate (n - length bs) 0"

text \<open>\<open>marshal_data\<close>: build the data to send to the server in \<open>SetClipboardData\<close>.
  The result is the handle to send and \<open>*ret_size\<close>; \<open>None\<close> is the return of 0.
  The bitmap size is computed in 32-bit \<open>int\<close> arithmetic and read as unsigned;
  \<open>*ret_size\<close> is a 32-bit \<open>data_size_t\<close>.\<close>

definition marshal_data :: "platform \<Rightarrow> UINT \<Rightarrow> HANDLE \<Rightarrow> (HANDLE \<times> nat) option" where
  "marshal_data P format handle =
    (if format = CF_BITMAP \<or> format = CF_DSPBITMAP then
       (case GetObjectW P handle of
          None \<Rightarrow> None
        | Some bitmap \<Rightarrow>
            let size = unat (abs32 (bmHeight bitmap) *
                         (signed_drop_bit 3 (bmWidth bitmap * ucast (bmBitsPixel bitmap) + 15) AND NOT 1));
                ret_size = (sizeof_BITMAP P + size) mod 2 ^ 32
            in if \<not> GlobalAlloc_ok P ret_size then None
               else Some (HGLOBAL (block_of (sizeof_BITMAP P) (write_BITMAP P bitmap) @
                                   block_of size (GetBitmapBits P handle size)), ret_size))
     else if format = CF_PALETTE then
       (let size = length (GetPaletteEntries P handle) in
        if size = 0 then None
        else let ret_size = offsetof_palPalEntry size mod 2 ^ 32 in
          if \<not> GlobalAlloc_ok P ret_size then None
          else Some (HGLOBAL (le16 768 @ le16 size @
                              block_of (4 * size) (concat (GetPaletteEntries P handle))), ret_size))
     else if format = CF_ENHMETAFILE \<or> format = CF_DSPENHMETAFILE then
       (let size = length (GetEnhMetaFileBits P handle) in
        if size = 0 then None
        else if \<not> GlobalAlloc_ok P size then None
        else Some (HGLOBAL (GetEnhMetaFileBits P handle), size mod 2 ^ 32))
     else if format = CF_METAFILEPICT \<or> format = CF_DSPMETAFILEPICT then
       (case GlobalLock handle of
          None \<Rightarrow> None
        | Some mf \<Rightarrow>
            let size = length (GetMetaFileBitsEx P (read_hMF P mf)) in
            if size = 0 then None
            else let ret_size = (sizeof_METAFILEPICT P + size) mod 2 ^ 32 in
              if \<not> GlobalAlloc_ok P ret_size then None
              else Some (HGLOBAL (block_of (sizeof_METAFILEPICT P) mf @
                                  GetMetaFileBitsEx P (read_hMF P mf)), ret_size))
     else
       (let size = GlobalSize handle in
        if size = 0 then None
        else if size mod 2 ^ 32 \<noteq> size then None
        else Some (handle, size)))"

text \<open>\<open>unmarshal_data\<close>: rebuild the target handle from the data received in
  \<open>GetClipboardData\<close>. Every \<open>break\<close> of the switch leads to the final
  \<open>return handle\<close>, the reallocated block itself. The size is compared with the 32-bit
  product \<open>bmWidthBytes * abs(bmHeight)\<close> read as unsigned. \<open>CreateBitmapIndirect\<close> gets
  the header and, for \<open>bmBits = bm + 1\<close>, the bytes that follow it in the block.\<close>

definition unmarshal_data :: "platform \<Rightarrow> UINT \<Rightarrow> byte list \<Rightarrow> nat \<Rightarrow> HANDLE" where
  "unmarshal_data P format data sz =
    (let handle = GlobalReAlloc data sz in
     if format = CF_BITMAP then
       (let bm = read_BITMAP P handle in
        if sz < sizeof_BITMAP P then HGLOBAL handle
        else if sz < unat (bmWidthBytes bm * abs32 (bmHeight bm)) then HGLOBAL handle
        else if bmBits bm \<noteq> 0 then HGLOBAL handle
        else CreateBitmapIndirect P bm (drop (sizeof_BITMAP P) handle))
     else if format = CF_DSPBITMAP then HGLOBAL handle
     else if format = CF_PALETTE then
       (if sz < sizeof_LOGPALETTE then HGLOBAL handle
        else if sz < offsetof_palPalEntry (palNumEntries handle) then HGLOBAL handle
        else CreatePalette P handle)
     else if format = CF_ENHMETAFILE \<or> format = CF_DSPENHMETAFILE then
       SetEnhMetaFileBits P handle
     else if format = CF_METAFILEPICT \<or> format = CF_DSPMETAFILEPICT then
       (if sz \<le> sizeof_METAFILEPICT P then HGLOBAL handle
        else HGLOBAL (write_hMF P handle
               (SetMetaFileBitsEx P (drop (sizeof_METAFILEPICT P) handle))))
     else HGLOBAL handle)"

subsection \<open>The collaborators: arbiter, window messages, driver\<close>

text \<open>The session arbiter (the server), the delivery of window messages and the driver's
  \<open>pUpdateClipboard\<close> are outside this file. They act on a world \<open>'w\<close> that the client
  cannot see; each server request is a function from the request's fields and the world to
  the reply's fields and the new world. A window procedure that receives a message is taken
  to act on the world only.\<close>

record 'w collab =
  pUpdateClipboard :: "'w \<Rightarrow> 'w"
  open_clipboard :: "HWND \<Rightarrow> 'w \<Rightarrow> (NTSTATUS \<times> nat) \<times> 'w"         \<comment> \<open>status, \<open>reply->owner\<close>\<close>
  close_clipboard :: "'w \<Rightarrow> (NTSTATUS \<times> HWND \<times> HWND) \<times> 'w"       \<comment> \<open>status, viewer, owner\<close>
  empty_clipboard :: "'w \<Rightarrow> NTSTATUS \<times> 'w"
  get_clipboard_info :: "'w \<Rightarrow> (NTSTATUS \<times> HWND) \<times> 'w"             \<comment> \<open>status, owner\<close>
  set_clipboard_data :: "UINT \<Rightarrow> byte list \<Rightarrow> 'w \<Rightarrow> NTSTATUS \<times> 'w"
  get_clipboard_formats :: "UINT \<Rightarrow> 'w \<Rightarrow> (NTSTATUS \<times> nat) \<times> 'w"  \<comment> \<open>status, count\<close>
  get_clipboard_data :: "UINT \<Rightarrow> nat \<Rightarrow> 'w \<Rightarrow> (NTSTATUS \<times> byte list \<times> nat \<times> HWND) \<times> 'w"
    \<comment> \<open>format and reply buffer size; status, bytes written, \<open>reply->total\<close>, owner\<close>
  SendMessageW :: "HWND \<Rightarrow> nat \<Rightarrow> nat \<Rightarrow> 'w \<Rightarrow> 'w"                \<comment> \<open>window, message, wparam\<close>
  SendMessageTimeoutW :: "HWND \<Rightarrow> nat \<Rightarrow> nat \<Rightarrow> 'w \<Rightarrow> bool \<times> 'w"  \<comment> \<open>window, message, timeout; answered in time?\<close>
  SendNotifyMessageW :: "HWND \<Rightarrow> nat \<Rightarrow> nat \<Rightarrow> 'w \<Rightarrow> 'w"

definition WM_DESTROYCLIPBOARD :: nat where "WM_DESTROYCLIPBOARD = 775"
definition WM_RENDERFORMAT :: nat where "WM_RENDERFORMAT = 773"
definition WM_DRAWCLIPBOARD :: nat where "WM_DRAWCLIPBOARD = 776"

text \<open>The log of what the client does that is visible outside it: the server requests it
  makes, the messages it sends, the driver calls and the conversions it starts (the source
  traces the latter with "rendering ... from ...").\<close>

datatype event =
    Req_open_clipboard HWND
  | Req_close_clipboard
  | Req_empty_clipboard
  | Req_get_clipboard_info
  | Req_set_clipboard_data UINT "byte list" NTSTATUS   \<comment> \<open>with the status of the reply\<close>
  | Req_get_clipboard_formats UINT
  | Req_get_clipboard_data UINT nat
  | Call_pUpdateClipboard
  | Msg HWND nat nat
  | Rendering UINT UINT

text \<open>The process-local state (\<open>bCBHasChanged\<close>, \<open>synthesized_formats[CF_MAX]\<close>) with
  the world and the log.\<close>

record 'w state =
  bCBHasChanged :: bool
  synthesized_formats :: "UINT list"
  world :: 'w
  trace :: "event list"

definition emit :: "event \<Rightarrow> 'w state \<Rightarrow> 'w state" where
  "emit e s = s\<lparr>trace := trace s @ [e]\<rparr>"

text \<open>\<open>memset( synthesized_formats, 0, sizeof(synthesized_formats) )\<close>\<close>

definition memset_synthesized_formats :: "'w state \<Rightarrow> 'w state" where
  "memset_synthesized_formats s = s\<lparr>synthesized_formats := replicate CF_MAX 0\<rparr>"

subsection \<open>SetClipboardData\<close>

definition SetClipboardData ::
  "platform \<Rightarrow> 'w collab \<Rightarrow> UINT \<Rightarrow> HANDLE \<Rightarrow> 'w state \<Rightarrow> HANDLE \<times> 'w state" where
  "SetClipboardData P A format data s =
    (let request = (\<lambda>payload.
           let (status, w') = set_clipboard_data A format payload (world s);
               s1 = (emit (Req_set_clipboard_data format payload status) s)\<lparr>world := w'\<rparr>
           in if status = STATUS_SUCCESS
              then (data, s1\<lparr>bCBHasChanged := True,
                            synthesized_formats :=
                              (if format < CF_MAX then (synthesized_formats s1)[format := 0]
                               else synthesized_formats s1)\<rparr>)
              else (NULL, s1))
     in if data \<noteq> NULL then
          (case marshal_data P format data of
             None \<Rightarrow> (NULL, s)
           | Some (handle, sz) \<Rightarrow>
               (case GlobalLock handle of
                  None \<Rightarrow> (NULL, s)
                | Some ptr \<Rightarrow> request (take sz ptr)))
        else request [])"

text \<open>The bytes \<open>SetClipboardData\<close> adds to its request
  (\<open>wine_server_add_data( req, ptr, size )\<close>): none for a null handle, else the first
  \<open>size\<close> bytes of the locked marshalled block.\<close>

definition sent_payload :: "platform \<Rightarrow> UINT \<Rightarrow> HANDLE \<Rightarrow> byte list" where
  "sent_payload P format data =
    (if data \<noteq> NULL then
       (case marshal_data P format data of
          None \<Rightarrow> []
        | Some (handle, sz) \<Rightarrow>
            (case GlobalLock handle of None \<Rightarrow> [] | Some ptr \<Rightarrow> take sz ptr))
     else [])"

subsection \<open>Format availability and the close-time synthesis pass\<close>

definition IsClipboardFormatAvailable ::
  "'w collab \<Rightarrow> UINT \<Rightarrow> 'w state \<Rightarrow> bool \<times> 'w state" where
  "IsClipboardFormatAvailable A format s =
    (if format = 0 then (False, s)
     else
       let s1 = (emit Call_pUpdateClipboard s)\<lparr>world := pUpdateClipboard A (world s)\<rparr>;
           ((status, count), w') = get_clipboard_formats A format (world s1);
           s2 = (emit (Req_get_clipboard_formats format) s1)\<lparr>world := w'\<rparr>
       in (status = STATUS_SUCCESS \<and> count > 0, s2))"

text \<open>\<open>add_synthesized_format\<close>: \<open>None\<close> is the failure of \<open>assert( format < CF_MAX )\<close>.\<close>

definition add_synthesized_format ::
  "platform \<Rightarrow> 'w collab \<Rightarrow> UINT \<Rightarrow> UINT \<Rightarrow> 'w state \<Rightarrow> 'w state option" where
  "add_synthesized_format P A format from s =
    (if \<not> format < CF_MAX then None
     else let (_, s1) = SetClipboardData P A format NULL s
          in Some (s1\<lparr>synthesized_formats := (synthesized_formats s1)[format := from]\<rparr>))"

text \<open>\<open>if (!has) add_synthesized_format( format, from );\<close>\<close>

definition add_unless ::
  "platform \<Rightarrow> 'w collab \<Rightarrow> bool \<Rightarrow> UINT \<Rightarrow> UINT \<Rightarrow> 'w state \<Rightarrow> 'w state option" where
  "add_unless P A has format from s =
    (if \<not> has then add_synthesized_format P A format from s else Some s)"

definition le32 :: "32 word \<Rightarrow> byte list" where
  "le32 x = [ucast x, ucast (drop_bit 8 x), ucast (drop_bit 16 x), ucast (drop_bit 24 x)]"

definition read_le32 :: "byte list \<Rightarrow> 32 word" where
  "read_le32 bs = ucast (bs ! 0) OR push_bit 8 (ucast (bs ! 1)) OR
                  push_bit 16 (ucast (bs ! 2)) OR push_bit 24 (ucast (bs ! 3))"

definition set_clipboard_locale :: "platform \<Rightarrow> 'w collab \<Rightarrow> 'w state \<Rightarrow> 'w state" where
  "set_clipboard_locale P A s =
    (if \<not> GlobalAlloc_ok P 4 then s
     else snd (SetClipboardData P A CF_LOCALE (HGLOBAL (le32 (GetUserDefaultLCID P))) s))"

definition add_synthesized_text :: "platform \<Rightarrow> 'w collab \<Rightarrow> 'w state \<Rightarrow> 'w state option" where
  "add_synthesized_text P A s =
    (let (has_text, s1) = IsClipboardFormatAvailable A CF_TEXT s;
         (has_oemtext, s2) = IsClipboardFormatAvailable A CF_OEMTEXT s1;
         (has_unicode, s3) = IsClipboardFormatAvailable A CF_UNICODETEXT s2
     in if \<not> has_text \<and> \<not> has_oemtext \<and> \<not> has_unicode then Some s3
        else
          let (has_locale, s4) = IsClipboardFormatAvailable A CF_LOCALE s3;
              s5 = (if \<not> has_locale then set_clipboard_locale P A s4 else s4)
          in if has_unicode then
               Option.bind (add_unless P A has_text CF_TEXT CF_UNICODETEXT s5)
                 (add_unless P A has_oemtext CF_OEMTEXT CF_UNICODETEXT)
             else if has_text then
               Option.bind (add_unless P A has_oemtext CF_OEMTEXT CF_TEXT s5)
                 (add_unless P A has_unicode CF_UNICODETEXT CF_TEXT)
             else
               Option.bind (add_unless P A has_text CF_TEXT CF_OEMTEXT s5)
                 (add_unless P A has_unicode CF_UNICODETEXT CF_OEMTEXT))"

definition add_synthesized_bitmap :: "platform \<Rightarrow> 'w collab \<Rightarrow> 'w state \<Rightarrow> 'w state option" where
  "add_synthesized_bitmap P A s =
    (let (has_dib, s1) = IsClipboardFormatAvailable A CF_DIB s;
         (has_dibv5, s2) = IsClipboardFormatAvailable A CF_DIBV5 s1;
         (has_bitmap, s3) = IsClipboardFormatAvailable A CF_BITMAP s2
     in if \<not> has_bitmap \<and> \<not> has_dib \<and> \<not> has_dibv5 then Some s3
        else if has_bitmap \<and> has_dib \<and> has_dibv5 then Some s3
        else if has_bitmap then
          Option.bind (add_unless P A has_dib CF_DIB CF_BITMAP s3)
            (add_unless P A has_dibv5 CF_DIBV5 CF_BITMAP)
        else if has_dib then
          Option.bind (add_unless P A has_bitmap CF_BITMAP CF_DIB s3)
            (add_unless P A has_dibv5 CF_DIBV5 CF_DIB)
        else
          Option.bind (add_unless P A has_bitmap CF_BITMAP CF_DIBV5 s3)
            (add_unless P A has_dib CF_DIB CF_DIBV5))"

definition add_synthesized_metafile :: "platform \<Rightarrow> 'w collab \<Rightarrow> 'w state \<Rightarrow> 'w state option" where
  "add_synthesized_metafile P A s =
    (let (has_mf, s1) = IsClipboardFormatAvailable A CF_METAFILEPICT s;
         (has_emf, s2) = IsClipboardFormatAvailable A CF_ENHMETAFILE s1
     in if \<not> has_mf \<and> has_emf then add_synthesized_format P A CF_METAFILEPICT CF_ENHMETAFILE s2
        else if \<not> has_emf \<and> has_mf then add_synthesized_format P A CF_ENHMETAFILE CF_METAFILEPICT s2
        else Some s2)"

subsection \<open>Session controller\<close>


text \<open>\<open>CloseClipboard\<close>: \<open>None\<close> is an assertion failure in the synthesis pass.\<close>

definition CloseClipboard ::
  "platform \<Rightarrow> 'w collab \<Rightarrow> 'w state \<Rightarrow> (bool \<times> 'w state) option" where
  "CloseClipboard P A s =
    (case (if bCBHasChanged s
           then Option.bind (Option.bind (add_synthesized_text P A (memset_synthesized_formats s))
                               (add_synthesized_bitmap P A))
                  (add_synthesized_metafile P A)
           else Some s) of
       None \<Rightarrow> None
     | Some s1 \<Rightarrow>
         let ((status, viewer, owner), w') = close_clipboard A (world s1);
             s2 = (emit Req_close_clipboard s1)\<lparr>world := w'\<rparr>
         in if status \<noteq> STATUS_SUCCESS then Some (False, s2)
            else
              let s3 = s2\<lparr>bCBHasChanged := False\<rparr>
              in if viewer \<noteq> 0
                 then Some (True, (emit (Msg viewer WM_DRAWCLIPBOARD owner) s3)
                                    \<lparr>world := SendNotifyMessageW A viewer WM_DRAWCLIPBOARD owner (world s3)\<rparr>)
                 else Some (True, s3))"

definition GetClipboardOwner :: "'w collab \<Rightarrow> 'w state \<Rightarrow> HWND \<times> 'w state" where
  "GetClipboardOwner A s =
    (let ((status, owner), w') = get_clipboard_info A (world s);
         s1 = (emit Req_get_clipboard_info s)\<lparr>world := w'\<rparr>
     in (if status = STATUS_SUCCESS then owner else 0, s1))"

text \<open>\<open>EmptyClipboard\<close>: the result of \<open>SendMessageTimeoutW\<close> (whether the owner answered
  within the 5000 ms) is not looked at.\<close>

definition EmptyClipboard :: "'w collab \<Rightarrow> 'w state \<Rightarrow> bool \<times> 'w state" where
  "EmptyClipboard A s =
    (let (owner, s1) = GetClipboardOwner A s;
         s2 = (if owner \<noteq> 0
               then (emit (Msg owner WM_DESTROYCLIPBOARD 0) s1)
                      \<lparr>world := snd (SendMessageTimeoutW A owner WM_DESTROYCLIPBOARD 5000 (world s1))\<rparr>
               else s1);
         (status, w') = empty_clipboard A (world s2);
         s3 = (emit Req_empty_clipboard s2)\<lparr>world := w'\<rparr>;
         ret = (status = STATUS_SUCCESS)
     in if ret then (ret, memset_synthesized_formats (s3\<lparr>bCBHasChanged := True\<rparr>))
        else (ret, s3))"

subsection \<open>Rendering synthesized formats\<close>

text \<open>\<open>GetClipboardData\<close> loops and calls itself through the rendering functions, with no
  bound in the source; the model counts calls and loop rounds against a fuel. A call ends
  with the value returned, out of fuel, or in a failed assertion.\<close>

datatype 'a outcome = Returned 'a | OutOfFuel | AssertFailed

type_synonym 'w getter = "UINT \<Rightarrow> 'w state \<Rightarrow> HANDLE outcome \<times> 'w state"

definition LOCALE_IDEFAULTANSICODEPAGE :: nat where "LOCALE_IDEFAULTANSICODEPAGE = 4100"
definition LOCALE_IDEFAULTCODEPAGE :: nat where "LOCALE_IDEFAULTCODEPAGE = 11"
definition CP_ACP :: nat where "CP_ACP = 0"
definition CP_OEMCP :: nat where "CP_OEMCP = 1"

definition get_format_codepage :: "platform \<Rightarrow> 32 word \<Rightarrow> UINT \<Rightarrow> nat" where
  "get_format_codepage P lcid format =
    (let type = (if format = CF_TEXT then LOCALE_IDEFAULTANSICODEPAGE else LOCALE_IDEFAULTCODEPAGE)
     in case GetLocaleInfoW P lcid type of
          Some ret \<Rightarrow> ret
        | None \<Rightarrow> (if format = CF_TEXT then CP_ACP else CP_OEMCP))"

text \<open>\<open>get_clipboard_locale\<close>; its \<open>GetClipboardData( CF_LOCALE )\<close> is the getter \<open>g\<close>.\<close>

definition get_clipboard_locale ::
  "platform \<Rightarrow> 'w getter \<Rightarrow> 'w state \<Rightarrow> 32 word outcome \<times> 'w state" where
  "get_clipboard_locale P g s =
    (let lcid = GetUserDefaultLCID P
     in case g CF_LOCALE s of
          (Returned data, s1) \<Rightarrow>
            (if data \<noteq> NULL then
               (case GlobalLock data of
                  Some ptr \<Rightarrow> (Returned (if GlobalSize data \<ge> 4 then read_le32 ptr else lcid), s1)
                | None \<Rightarrow> (Returned lcid, s1))
             else (Returned lcid, s1))
        | (OutOfFuel, s1) \<Rightarrow> (OutOfFuel, s1)
        | (AssertFailed, s1) \<Rightarrow> (AssertFailed, s1))"

fun wchars_of :: "byte list \<Rightarrow> 16 word list" where
  "wchars_of (lo # hi # bs) = (ucast lo OR push_bit 8 (ucast hi)) # wchars_of bs"
| "wchars_of _ = []"

definition bytes_of_wchars :: "16 word list \<Rightarrow> byte list" where
  "bytes_of_wchars ws = concat (map (\<lambda>w. [ucast w, ucast (drop_bit 8 w)]) ws)"

definition render_synthesized_textA ::
  "platform \<Rightarrow> 'w getter \<Rightarrow> HANDLE \<Rightarrow> UINT \<Rightarrow> UINT \<Rightarrow> 'w state \<Rightarrow> HANDLE outcome \<times> 'w state" where
  "render_synthesized_textA P g data format from s =
    (case get_clipboard_locale P g s of
       (Returned lcid, s1) \<Rightarrow>
         (let codepage = get_format_codepage P lcid format;
              sz = GlobalSize data
          in case GlobalLock data of
               None \<Rightarrow> (Returned NULL, s1)
             | Some src \<Rightarrow>
                 let convert = (\<lambda>srcW.
                       let out = WideCharToMultiByte P codepage srcW
                       in if GlobalAlloc_ok P (length out) then HGLOBAL out else NULL)
                 in if from \<noteq> CF_UNICODETEXT then
                      (let from_codepage = get_format_codepage P lcid from;
                           srcW = MultiByteToWideChar P from_codepage (take sz src)
                       in if \<not> HeapAlloc_ok P (length srcW * 2) then (Returned NULL, s1)
                          else (Returned (convert srcW), s1))
                    else (Returned (convert (take (sz div 2) (wchars_of src))), s1))
     | (OutOfFuel, s1) \<Rightarrow> (OutOfFuel, s1)
     | (AssertFailed, s1) \<Rightarrow> (AssertFailed, s1))"

definition render_synthesized_textW ::
  "platform \<Rightarrow> 'w getter \<Rightarrow> HANDLE \<Rightarrow> UINT \<Rightarrow> 'w state \<Rightarrow> HANDLE outcome \<times> 'w state" where
  "render_synthesized_textW P g data from s =
    (let sz = GlobalSize data
     in case get_clipboard_locale P g s of
          (Returned lcid, s1) \<Rightarrow>
            (let codepage = get_format_codepage P lcid from
             in case GlobalLock data of
                  None \<Rightarrow> (Returned NULL, s1)
                | Some src \<Rightarrow>
                    let out = MultiByteToWideChar P codepage (take sz src)
                    in if GlobalAlloc_ok P (length out * 2)
                       then (Returned (HGLOBAL (bytes_of_wchars out)), s1)
                       else (Returned NULL, s1))
        | (OutOfFuel, s1) \<Rightarrow> (OutOfFuel, s1)
        | (AssertFailed, s1) \<Rightarrow> (AssertFailed, s1))"

definition render_synthesized_bitmap :: "platform \<Rightarrow> HANDLE \<Rightarrow> HANDLE" where
  "render_synthesized_bitmap P data =
    (case GlobalLock data of Some bmi \<Rightarrow> CreateDIBitmap P bmi | None \<Rightarrow> NULL)"

definition sizeof_BITMAPINFOHEADER :: nat where "sizeof_BITMAPINFOHEADER = 40"
definition sizeof_BITMAPINFO :: nat where "sizeof_BITMAPINFO = 44"
definition sizeof_BITMAPV5HEADER :: nat where "sizeof_BITMAPV5HEADER = 124"
definition BI_BITFIELDS :: "32 word" where "BI_BITFIELDS = 3"

definition render_synthesized_dib :: "platform \<Rightarrow> HANDLE \<Rightarrow> UINT \<Rightarrow> UINT \<Rightarrow> HANDLE" where
  "render_synthesized_dib P data format from =
    (if from = CF_BITMAP then
       (let bV5Size = (if format = CF_DIBV5 then sizeof_BITMAPV5HEADER else sizeof_BITMAPINFOHEADER)
        in case GetDIBits_header P data bV5Size of
             None \<Rightarrow> NULL
           | Some header \<Rightarrow>
               let header_size = bitmap_info_size P header;
                   bV5SizeImage = unat (read_le32 (drop 20 header))
               in if \<not> GlobalAlloc_ok P (header_size + bV5SizeImage) then NULL
                  else HGLOBAL (take bV5Size header @ replicate (header_size - bV5Size) 0 @
                                GetDIBits_bits P data header))
     else
       (let sz = GlobalSize data
        in if sz < sizeof_BITMAPINFO then NULL
           else case GlobalLock data of
                  None \<Rightarrow> NULL
                | Some src \<Rightarrow>
                    let src_size = bitmap_info_size P src
                    in if sz \<le> src_size then NULL
                       else
                         let bits_size = sz - src_size;
                             header_size =
                               (if format = CF_DIBV5 then sizeof_BITMAPV5HEADER
                                else sizeof_BITMAPINFOHEADER +
                                     4 * (if read_le32 (drop 16 src) = BI_BITFIELDS then 3 else 0));
                             n = min header_size src_size
                         in if \<not> GlobalAlloc_ok P (header_size + bits_size) then NULL
                            else HGLOBAL (le32 (of_nat header_size) @
                                          drop 4 (take n src @ replicate (header_size - n) 0) @
                                          take bits_size (drop src_size src))))"

definition MM_ISOTROPIC :: "32 word" where "MM_ISOTROPIC = 7"

definition render_synthesized_metafile :: "platform \<Rightarrow> HANDLE \<Rightarrow> HANDLE" where
  "render_synthesized_metafile P data =
    (let bits = GetWinMetaFileBits P data
     in if \<not> HeapAlloc_ok P (length bits) then NULL
        else case GetEnhMetaFileHeader_frame P data of
               None \<Rightarrow> NULL
             | Some (l, t, r, b) \<Rightarrow>
                 if bits = [] then NULL
                 else if \<not> GlobalAlloc_ok P (sizeof_METAFILEPICT P) then NULL
                 else HGLOBAL (write_METAFILEPICT P MM_ISOTROPIC (r - l) (b - t)
                                 (SetMetaFileBitsEx P bits)))"

definition render_synthesized_enhmetafile :: "platform \<Rightarrow> HANDLE \<Rightarrow> HANDLE" where
  "render_synthesized_enhmetafile P data =
    (case GlobalLock data of
       None \<Rightarrow> NULL
     | Some pict \<Rightarrow>
         let bits = GetMetaFileBitsEx P (read_hMF P pict)
         in if \<not> HeapAlloc_ok P (length bits) then NULL
            else SetWinMetaFileBits P bits pict)"

text \<open>\<open>render_synthesized_format\<close>; its \<open>GetClipboardData( from )\<close> and those of the text
  renderers are the getter \<open>g\<close>. \<open>default: assert( 0 )\<close> ends the call.\<close>

definition render_synthesized_format ::
  "platform \<Rightarrow> 'w collab \<Rightarrow> 'w getter \<Rightarrow> UINT \<Rightarrow> UINT \<Rightarrow> 'w state \<Rightarrow> HANDLE outcome \<times> 'w state" where
  "render_synthesized_format P A g format from s =
    (case g from s of
       (Returned data, s1) \<Rightarrow>
         if data = NULL then (Returned NULL, s1)
         else
           let s2 = emit (Rendering format from) s1;
               r = (if format = CF_TEXT \<or> format = CF_OEMTEXT
                      then render_synthesized_textA P g data format from s2
                    else if format = CF_UNICODETEXT
                      then render_synthesized_textW P g data from s2
                    else if format = CF_BITMAP
                      then (Returned (render_synthesized_bitmap P data), s2)
                    else if format = CF_DIB \<or> format = CF_DIBV5
                      then (Returned (render_synthesized_dib P data format from), s2)
                    else if format = CF_METAFILEPICT
                      then (Returned (render_synthesized_metafile P data), s2)
                    else if format = CF_ENHMETAFILE
                      then (Returned (render_synthesized_enhmetafile P data), s2)
                    else (AssertFailed, s2))
           in (case r of
                 (Returned data', s3) \<Rightarrow>
                   if data' \<noteq> NULL
                   then (Returned data', snd (SetClipboardData P A format data' s3))
                   else (Returned data', s3)
               | (OutOfFuel, s3) \<Rightarrow> (OutOfFuel, s3)
               | (AssertFailed, s3) \<Rightarrow> (AssertFailed, s3))
     | (OutOfFuel, s1) \<Rightarrow> (OutOfFuel, s1)
     | (AssertFailed, s1) \<Rightarrow> (AssertFailed, s1))"

subsection \<open>GetClipboardData\<close>

text \<open>The \<open>for (;;)\<close> loop of \<open>GetClipboardData\<close>, with the locals \<open>size\<close> and
  \<open>render\<close>. The reply buffer holds the bytes the server wrote; the rest of it is not
  initialised (zero here).\<close>

fun fetch_loop ::
  "platform \<Rightarrow> 'w collab \<Rightarrow> nat \<Rightarrow> UINT \<Rightarrow> nat \<Rightarrow> bool \<Rightarrow> 'w state \<Rightarrow> HANDLE outcome \<times> 'w state" where
  "fetch_loop P A 0 format sz render s = (OutOfFuel, s)"
| "fetch_loop P A (Suc k) format sz render s =
    (if \<not> GlobalAlloc_ok P sz then (Returned NULL, s)
     else
       let ((status, written, tot, owner), w') = get_clipboard_data A format sz (world s);
           s1 = (emit (Req_get_clipboard_data format sz) s)\<lparr>world := w'\<rparr>;
           data = take sz written @ replicate (sz - length written) 0
       in if status = STATUS_SUCCESS \<and> tot \<noteq> 0
            then (Returned (unmarshal_data P format data tot), s1)
          else if status = STATUS_BUFFER_OVERFLOW
            then fetch_loop P A k format tot render s1
          else if status \<noteq> STATUS_SUCCESS
            then (Returned NULL, s1)
          else if render \<and> owner \<noteq> 0
            then fetch_loop P A k format tot False
                   ((emit (Msg owner WM_RENDERFORMAT format) s1)
                      \<lparr>world := SendMessageW A owner WM_RENDERFORMAT format (world s1)\<rparr>)
          else (Returned NULL, s1))"

text \<open>\<open>GetClipboardData\<close> with \<open>n\<close> units of fuel: a synthesized format is rendered, any
  other is fetched from the server, starting with a buffer of 1024 bytes.\<close>

fun GetClipboardData :: "platform \<Rightarrow> 'w collab \<Rightarrow> nat \<Rightarrow> 'w getter" where
  "GetClipboardData P A 0 format s = (OutOfFuel, s)"
| "GetClipboardData P A (Suc n) format s =
    (if format < CF_MAX \<and> synthesized_formats s ! format \<noteq> 0
     then render_synthesized_format P A (GetClipboardData P A n) format
            (synthesized_formats s ! format) s
     else fetch_loop P A (Suc n) format 1024 True s)"

subsection \<open>Notions used in the statements\<close>

text \<open>The structural checks of \<open>unmarshal_data\<close> that end in \<open>break\<close>, per format.\<close>

definition validation_fails :: "platform \<Rightarrow> UINT \<Rightarrow> byte list \<Rightarrow> nat \<Rightarrow> bool" where
  "validation_fails P format data sz =
    (let handle = GlobalReAlloc data sz; bm = read_BITMAP P handle
     in if format = CF_BITMAP then
          sz < sizeof_BITMAP P \<or> sz < unat (bmWidthBytes bm * abs32 (bmHeight bm)) \<or> bmBits bm \<noteq> 0
        else if format = CF_DSPBITMAP then True
        else if format = CF_PALETTE then
          sz < sizeof_LOGPALETTE \<or> sz < offsetof_palPalEntry (palNumEntries handle)
        else if format = CF_METAFILEPICT \<or> format = CF_DSPMETAFILEPICT then
          sz \<le> sizeof_METAFILEPICT P
        else False)"

definition is_render_msg :: "event \<Rightarrow> bool" where
  "is_render_msg e = (case e of Msg _ m _ \<Rightarrow> m = WM_RENDERFORMAT | _ \<Rightarrow> False)"

definition is_get_request :: "event \<Rightarrow> bool" where
  "is_get_request e = (case e of Req_get_clipboard_data _ _ \<Rightarrow> True | _ \<Rightarrow> False)"

definition is_rendering :: "UINT \<Rightarrow> event \<Rightarrow> bool" where
  "is_rendering format e = (case e of Rendering f _ \<Rightarrow> f = format | _ \<Rightarrow> False)"

definition is_set_request :: "event \<Rightarrow> bool" where
  "is_set_request e = (case e of Req_set_clipboard_data _ _ _ \<Rightarrow> True | _ \<Rightarrow> False)"

text \<open>The arbiter holds \<open>payload\<close> for \<open>format\<close> in world \<open>w\<close>: a read with a buffer that is
  large enough returns it, a read with a smaller one reports the size needed, and reading
  does not change the world.\<close>

definition arbiter_holds :: "'w collab \<Rightarrow> 'w \<Rightarrow> UINT \<Rightarrow> byte list \<Rightarrow> bool" where
  "arbiter_holds A w format payload =
    (\<forall>sz. \<exists>owner. get_clipboard_data A format sz w =
       (if length payload \<le> sz then ((STATUS_SUCCESS, payload, length payload, owner), w)
        else ((STATUS_BUFFER_OVERFLOW, [], length payload, owner), w)))"

subsection \<open>A concrete platform and arbiter, for evaluating the model\<close>

definition read_le16 :: "byte list \<Rightarrow> 16 word" where
  "read_le16 bs = ucast (bs ! 0) OR push_bit 8 (ucast (bs ! 1))"

text \<open>A 32-bit little-endian layout (\<open>sizeof(BITMAP) = 24\<close>, \<open>sizeof(METAFILEPICT) = 16\<close>),
  allocations that succeed, a graphics subsystem that numbers its objects, and code pages
  that map bytes to characters one to one.\<close>

definition plat32 :: platform where
  "plat32 = \<lparr>
     sizeof_BITMAP = 24,
     read_BITMAP = (\<lambda>bs. \<lparr>bmType = read_le32 bs, bmWidth = read_le32 (drop 4 bs),
                          bmHeight = read_le32 (drop 8 bs), bmWidthBytes = read_le32 (drop 12 bs),
                          bmPlanes = read_le16 (drop 16 bs), bmBitsPixel = read_le16 (drop 18 bs),
                          bmBits = unat (read_le32 (drop 20 bs))\<rparr>),
     write_BITMAP = (\<lambda>bm. le32 (bmType bm) @ le32 (bmWidth bm) @ le32 (bmHeight bm) @
                          le32 (bmWidthBytes bm) @ le16 (unat (bmPlanes bm)) @
                          le16 (unat (bmBitsPixel bm)) @ le32 (of_nat (bmBits bm))),
     sizeof_METAFILEPICT = 16,
     read_hMF = (\<lambda>bs. if read_le32 (drop 12 bs) = 0 then NULL
                       else HGDIOBJ (unat (read_le32 (drop 12 bs)))),
     write_hMF = (\<lambda>bs h. take 12 bs @ le32 (case h of HGDIOBJ n \<Rightarrow> of_nat n | _ \<Rightarrow> 0) @ drop 16 bs),
     GlobalAlloc_ok = (\<lambda>_. True),
     GetObjectW = (\<lambda>_. None),
     GetBitmapBits = (\<lambda>_ _. []),
     GetPaletteEntries = (\<lambda>_. []),
     GetEnhMetaFileBits = (\<lambda>_. []),
     GetMetaFileBitsEx = (\<lambda>_. []),
     CreateBitmapIndirect = (\<lambda>_ _. HGDIOBJ 1),
     CreatePalette = (\<lambda>_. HGDIOBJ 2),
     SetEnhMetaFileBits = (\<lambda>_. HGDIOBJ 3),
     SetMetaFileBitsEx = (\<lambda>_. HGDIOBJ 4),
     HeapAlloc_ok = (\<lambda>_. True),
     GetUserDefaultLCID = 1033,
     GetLocaleInfoW = (\<lambda>_ _. None),
     MultiByteToWideChar = (\<lambda>_ bs. map ucast bs),
     WideCharToMultiByte = (\<lambda>_ ws. map ucast ws),
     bitmap_info_size = (\<lambda>_. 40),
     CreateDIBitmap = (\<lambda>_. HGDIOBJ 5),
     GetDIBits_header = (\<lambda>_ _. None),
     GetDIBits_bits = (\<lambda>_ _. []),
     GetWinMetaFileBits = (\<lambda>_. []),
     GetEnhMetaFileHeader_frame = (\<lambda>_. None),
     write_METAFILEPICT = (\<lambda>_ _ _ _. []),
     SetWinMetaFileBits = (\<lambda>_ _. HGDIOBJ 6)\<rparr>"

text \<open>An arbiter with an owner, an opener and a directory of payloads; a format registered
  with an empty payload is one the owner has promised to render. Window procedures do
  nothing, and the owner never answers \<open>WM_DESTROYCLIPBOARD\<close> in time.\<close>

record test_world =
  tw_owner :: HWND
  tw_open :: HWND
  tw_dir :: "(UINT \<times> byte list) list"

definition STATUS_OBJECT_NAME_NOT_FOUND :: NTSTATUS where
  "STATUS_OBJECT_NAME_NOT_FOUND = 3221225524"


definition test_arbiter :: "test_world collab" where
  "test_arbiter = \<lparr>
     pUpdateClipboard = (\<lambda>w. w),
     open_clipboard = (\<lambda>hwnd w. ((STATUS_SUCCESS, tw_owner w), w\<lparr>tw_open := hwnd\<rparr>)),
     close_clipboard = (\<lambda>w. ((STATUS_SUCCESS, 0, tw_owner w), w\<lparr>tw_open := 0\<rparr>)),
     empty_clipboard = (\<lambda>w. (STATUS_SUCCESS, w\<lparr>tw_owner := tw_open w, tw_dir := []\<rparr>)),
     get_clipboard_info = (\<lambda>w. ((STATUS_SUCCESS, tw_owner w), w)),
     set_clipboard_data = (\<lambda>format payload w.
        (STATUS_SUCCESS, w\<lparr>tw_dir := (format, payload) # filter (\<lambda>e. fst e \<noteq> format) (tw_dir w)\<rparr>)),
     get_clipboard_formats = (\<lambda>format w.
        ((STATUS_SUCCESS, if map_of (tw_dir w) format = None then 0 else 1), w)),
     get_clipboard_data = (\<lambda>format sz w.
        case map_of (tw_dir w) format of
          None \<Rightarrow> ((STATUS_OBJECT_NAME_NOT_FOUND, [], 0, tw_owner w), w)
        | Some payload \<Rightarrow>
            if length payload \<le> sz then ((STATUS_SUCCESS, payload, length payload, tw_owner w), w)
            else ((STATUS_BUFFER_OVERFLOW, [], length payload, tw_owner w), w)),
     SendMessageW = (\<lambda>_ _ _ w. w),
     SendMessageTimeoutW = (\<lambda>_ _ _ w. (False, w)),
     SendNotifyMessageW = (\<lambda>_ _ _ w. w)\<rparr>"

definition init_state :: "test_world \<Rightarrow> test_world state" where
  "init_state w = \<lparr>bCBHasChanged = False, synthesized_formats = replicate CF_MAX 0,
                   world = w, trace = []\<rparr>"

text \<open>A bitmap payload of 100 bytes: the 24-byte header (width 1, height 100, stride 4,
  \<open>bmBits\<close> null) and 76 bytes of bits.\<close>

definition short_bitmap_payload :: "byte list" where
  "short_bitmap_payload =
     le32 0 @ le32 1 @ le32 100 @ le32 4 @ le16 1 @ le16 1 @ le32 0 @ replicate 76 0"

text \<open>Worlds and states for evaluation: an empty clipboard opened by window 1; a clipboard
  owned by window 5 with a plain text, opened by window 1; the state after emptying the
  latter; a client state with the changed-flag set and one format marked synthesized.\<close>

definition world0 :: test_world where
  "world0 = \<lparr>tw_owner = 0, tw_open = 1, tw_dir = []\<rparr>"

definition world_owned :: test_world where
  "world_owned = \<lparr>tw_owner = 5, tw_open = 1, tw_dir = [(CF_TEXT, [72, 105, 0])]\<rparr>"

definition emptied_state :: "test_world state" where
  "emptied_state = \<lparr>bCBHasChanged = True, synthesized_formats = replicate CF_MAX 0,
     world = \<lparr>tw_owner = 1, tw_open = 1, tw_dir = []\<rparr>,
     trace = [Req_get_clipboard_info, Msg 5 WM_DESTROYCLIPBOARD 0, Req_empty_clipboard]\<rparr>"

definition dirty_state :: "test_world \<Rightarrow> test_world state" where
  "dirty_state w = \<lparr>bCBHasChanged = True,
     synthesized_formats = (replicate CF_MAX 0)[CF_OEMTEXT := CF_TEXT], world = w, trace = []\<rparr>"

text \<open>A clipboard holding two bytes as \<open>CF_PALETTE\<close>, and the 1024-byte reply buffer
  after the server wrote them.\<close>

definition world_palette :: test_world where
  "world_palette = \<lparr>tw_owner = 5, tw_open = 1, tw_dir = [(CF_PALETTE, [1, 2])]\<rparr>"

definition palette_buffer :: "byte list" where
  "palette_buffer = take 1024 [1, 2] @ replicate (1024 - length [1, 2::byte]) 0"

text \<open>A piece of the log made of \<open>get_clipboard_data\<close> requests and
  \<open>WM_RENDERFORMAT\<close> messages only.\<close>

definition fetch_only :: "event list \<Rightarrow> bool" where
  "fetch_only t = (\<forall>e \<in> set t. is_get_request e \<or> is_render_msg e)"


text \<open>A clipboard where \<open>CF_DIB\<close> is registered with no data yet (to be rendered on
  request), with the given owner (0 for none).\<close>

definition world_promised :: "HWND \<Rightarrow> test_world" where
  "world_promised owner = \<lparr>tw_owner = owner, tw_open = 1, tw_dir = [(CF_DIB, [])]\<rparr>"














text \<open>The state after storing two bytes as OEM text over a synthesized marking, on an empty
  clipboard.\<close>

definition stored_oem_state :: "test_world state" where
  "stored_oem_state = \<lparr>bCBHasChanged = True,
     synthesized_formats = ((replicate CF_MAX 0)[CF_OEMTEXT := CF_TEXT])[CF_OEMTEXT := 0],
     world = \<lparr>tw_owner = 0, tw_open = 1, tw_dir = [(CF_OEMTEXT, [65, 0])]\<rparr>,
     trace = [Req_set_clipboard_data CF_OEMTEXT [65, 0] STATUS_SUCCESS]\<rparr>"

section \<open>Properties\<close>

lemmas CF_defs = CF_TEXT_def CF_BITMAP_def CF_METAFILEPICT_def CF_OEMTEXT_def CF_DIB_def
  CF_PALETTE_def CF_UNICODETEXT_def CF_ENHMETAFILE_def CF_LOCALE_def CF_DIBV5_def CF_MAX_def
  CF_DSPBITMAP_def CF_DSPMETAFILEPICT_def CF_DSPENHMETAFILE_def

subsection \<open>Word arithmetic\<close>

lemma sint_neg_uint: "sint (h::32 word) < 0 \<Longrightarrow> sint h = uint h - 2 ^ 32"
proof -
  assume neg: "sint h < 0"
  have ge: "- (2 ^ 31) \<le> sint h" using sint_ge[of h] by simp
  have "uint h = sint h mod 2 ^ 32" using uint_sint[of h] by (simp add: take_bit_eq_mod)
  also have "\<dots> = (sint h + 2 ^ 32) mod 2 ^ 32" by simp
  also have "\<dots> = sint h + 2 ^ 32" using neg ge by (intro mod_pos_pos_trivial) simp_all
  finally show ?thesis by simp
qed

lemma sint_nonneg_uint: "0 \<le> sint (h::32 word) \<Longrightarrow> sint h = uint h"
proof -
  assume nn: "0 \<le> sint h"
  have lt: "sint h < 2 ^ 31" using sint_lt[of h] by simp
  have "uint h = sint h mod 2 ^ 32" using uint_sint[of h] by (simp add: take_bit_eq_mod)
  also have "\<dots> = sint h" using nn lt by (intro mod_pos_pos_trivial) simp_all
  finally show ?thesis by simp
qed

lemma unat_abs32: "unat (abs32 h) = nat \<bar>sint h\<bar>"
proof (cases "sint h < 0")
  case True
  have u: "uint h < 2 ^ 32" using uint_lt2p[of h] by simp
  have "h \<noteq> 0" using True by auto
  then have "uint h \<noteq> 0" by (simp add: uint_0_iff)
  then have pos: "0 < uint h" using uint_ge_0[of h] by linarith
  have "uint (- h) = (- uint h) mod 2 ^ 32" by (simp add: uint_word_ariths)
  also have "\<dots> = 2 ^ 32 - uint h"
    using pos u by (simp add: zmod_zminus1_eq_if)
  finally have "uint (- h) = - sint h" using sint_neg_uint[OF True] by simp
  then show ?thesis using True by (simp add: abs32_def unat_eq_nat_uint)
next
  case False
  then have nn: "0 \<le> sint h" by simp
  have "unat h = nat (uint h)" by (rule unat_eq_nat_uint)
  also have "\<dots> = nat (sint h)" using sint_nonneg_uint[OF nn] by (simp only:)
  also have "\<dots> = nat \<bar>sint h\<bar>" using nn by (simp only: abs_of_nonneg)
  finally show ?thesis using False by (simp only: abs32_def if_False)
qed

text \<open>Where the stride is not negative and stride times height fits 32 bits, the product
  the code compares the size with is the mathematical one.\<close>

lemma stride_times_height:
  assumes "0 \<le> sint w" and "sint w * \<bar>sint h\<bar> < 2 ^ 32"
  shows "unat (w * abs32 h) = nat (sint w * \<bar>sint h\<bar>)"
proof -
  have "unat w = nat (uint w)" by (rule unat_eq_nat_uint)
  then have w: "unat w = nat (sint w)" using sint_nonneg_uint[OF assms(1)] by (simp only:)
  have "nat (sint w * \<bar>sint h\<bar>) = nat (sint w) * nat \<bar>sint h\<bar>"
    by (rule nat_mult_distrib[OF assms(1)])
  then have eq: "unat w * unat (abs32 h) = nat (sint w * \<bar>sint h\<bar>)"
    by (simp only: w unat_abs32)
  moreover have "nat (sint w * \<bar>sint h\<bar>) < 2 ^ 32" using assms(2) by (simp add: nat_less_iff)
  ultimately have "unat w * unat (abs32 h) < 2 ^ LENGTH(32)" by simp
  then have "unat (w * abs32 h) = unat w * unat (abs32 h)"
    using unat_mult_lem[of w "abs32 h"] by simp
  then show ?thesis using eq by simp
qed

subsection \<open>Unmarshalling a bitmap\<close>

text \<open>
  C1 (as amended). A \<open>CF_BITMAP\<close> payload whose received size is smaller than the
  \<open>BITMAP\<close> header, or smaller than stride times |height| (stride not negative, the
  product within 32 bits), or whose \<open>bmBits\<close> field is set, is not turned into a bitmap:
  \<open>unmarshal_data\<close> returns the received block itself, trimmed to the received size, as a
  non-null handle. There is no failure result.
\<close>

theorem C1_bitmap_rejected_returns_block:
  assumes "bm = read_BITMAP P (GlobalReAlloc data sz)"
    and "sz < sizeof_BITMAP P
         \<or> (0 \<le> sint (bmWidthBytes bm) \<and> sint (bmWidthBytes bm) * \<bar>sint (bmHeight bm)\<bar> < 2 ^ 32
            \<and> int sz < sint (bmWidthBytes bm) * \<bar>sint (bmHeight bm)\<bar>)
         \<or> bmBits bm \<noteq> 0"
  shows "unmarshal_data P CF_BITMAP data sz = HGLOBAL (GlobalReAlloc data sz)
         \<and> unmarshal_data P CF_BITMAP data sz \<noteq> NULL"
proof -
  have "sz < sizeof_BITMAP P \<or> sz < unat (bmWidthBytes bm * abs32 (bmHeight bm)) \<or> bmBits bm \<noteq> 0"
    using assms(2) stride_times_height[of "bmWidthBytes bm" "bmHeight bm"] by auto
  then show ?thesis
    using assms(1) by (auto simp: unmarshal_data_def Let_def)
qed

lemma short_bitmap_payload_realloc:
  "GlobalReAlloc short_bitmap_payload 100 = short_bitmap_payload"
  by (simp add: GlobalReAlloc_def short_bitmap_payload_def le32_def le16_def)

lemma short_bitmap_payload_header:
  "read_BITMAP plat32 short_bitmap_payload =
     \<lparr>bmType = 0, bmWidth = 1, bmHeight = 100, bmWidthBytes = 4, bmPlanes = 1,
      bmBitsPixel = 1, bmBits = 0\<rparr>"
  by (simp add: plat32_def short_bitmap_payload_def le32_def le16_def read_le32_def read_le16_def)

text \<open>A payload of 100 bytes that declares 100 rows of 4 bytes comes back as it is.\<close>

theorem C1_witness:
  "(100::nat) \<ge> sizeof_BITMAP plat32 \<and> (100::int) < 4 * 100 \<and>
   unmarshal_data plat32 CF_BITMAP short_bitmap_payload 100 = HGLOBAL short_bitmap_payload"
  using C1_bitmap_rejected_returns_block[of _ plat32 short_bitmap_payload 100, OF refl]
  by (simp add: short_bitmap_payload_realloc short_bitmap_payload_header) (simp add: plat32_def)

text \<open>The claim as stated fails: ten received bytes, fewer than the header, do not give a
  failure but the ten bytes as a handle.\<close>

theorem C1_counterexample:
  "(10::nat) < sizeof_BITMAP plat32 \<and>
   unmarshal_data plat32 CF_BITMAP (replicate 1024 0) 10 = HGLOBAL (replicate 10 0) \<and>
   unmarshal_data plat32 CF_BITMAP (replicate 1024 0) 10 \<noteq> NULL"
  by (simp add: unmarshal_data_def plat32_def GlobalReAlloc_def)

text \<open>The size check of the bitmap case does not count the header: a payload of the 24
  header bytes alone, declaring one row of two bytes, passes it and a bitmap is created from
  the (missing) bytes after the header.\<close>

lemma bitmap_header_not_counted:
  "unmarshal_data plat32 CF_BITMAP
     (le32 0 @ le32 1 @ le32 1 @ le32 2 @ le16 1 @ le16 1 @ le32 0) 24 = HGDIOBJ 1"
  by (simp add: unmarshal_data_def plat32_def GlobalReAlloc_def le32_def le16_def read_le32_def
        read_le16_def abs32_def Let_def)

subsection \<open>SetClipboardData\<close>

text \<open>
  C7. When \<open>marshal_data\<close> fails, \<open>SetClipboardData\<close> returns 0 at once: the state
  comes back as it was, so no \<open>set_clipboard_data\<close> request was made (the log and the
  world are unchanged) and the changed-flag and the synthesis table are untouched.
\<close>

theorem C7_failed_marshal_no_request:
  assumes "data \<noteq> NULL" and "marshal_data P format data = None"
  shows "SetClipboardData P A format data s = (NULL, s)"
  using assms by (simp add: SetClipboardData_def)

theorem C7_witness:
  "HGDIOBJ 7 \<noteq> NULL \<and> marshal_data plat32 CF_BITMAP (HGDIOBJ 7) = None \<and>
   SetClipboardData plat32 test_arbiter CF_BITMAP (HGDIOBJ 7) (init_state world0)
     = (NULL, init_state world0)"
proof -
  have m: "marshal_data plat32 CF_BITMAP (HGDIOBJ 7) = None"
    by (simp add: marshal_data_def plat32_def)
  show ?thesis
    using C7_failed_marshal_no_request[of "HGDIOBJ 7" plat32 CF_BITMAP test_arbiter "init_state world0"] m
    by simp
qed

text \<open>
  C10. \<open>SetClipboardData\<close> with a null data handle does not enter the codec layer (the
  result does not depend on the platform the codecs use), makes one \<open>set_clipboard_data\<close>
  request with an empty payload, sets the changed-flag when the request succeeds, and
  returns null whether or not it succeeds.
\<close>

theorem C10_null_handle_registers_delayed:
  "fst (SetClipboardData P A format NULL s) = NULL \<and>
   trace (snd (SetClipboardData P A format NULL s)) =
     trace s @ [Req_set_clipboard_data format [] (fst (set_clipboard_data A format [] (world s)))] \<and>
   world (snd (SetClipboardData P A format NULL s)) = snd (set_clipboard_data A format [] (world s)) \<and>
   (fst (set_clipboard_data A format [] (world s)) = STATUS_SUCCESS
      \<longrightarrow> bCBHasChanged (snd (SetClipboardData P A format NULL s))) \<and>
   SetClipboardData P' A format NULL s = SetClipboardData P A format NULL s"
  by (simp add: SetClipboardData_def Let_def emit_def split: prod.splits)

theorem C10_witness:
  "fst (set_clipboard_data test_arbiter CF_TEXT [] world0) = STATUS_SUCCESS \<and>
   fst (SetClipboardData plat32 test_arbiter CF_TEXT NULL (init_state world0)) = NULL \<and>
   bCBHasChanged (snd (SetClipboardData plat32 test_arbiter CF_TEXT NULL (init_state world0))) \<and>
   tw_dir (world (snd (SetClipboardData plat32 test_arbiter CF_TEXT NULL (init_state world0))))
     = [(CF_TEXT, [])]"
  using C10_null_handle_registers_delayed[of plat32 test_arbiter CF_TEXT "init_state world0" plat32]
  by (simp add: test_arbiter_def init_state_def world0_def)

subsection \<open>EmptyClipboard and OpenClipboard\<close>

text \<open>
  C3 (as amended). After a successful \<open>EmptyClipboard\<close> the synthesis table is cleared and
  the changed-flag is set; the last thing the client did is the \<open>empty_clipboard\<close>
  request, and whether the previous owner answered \<open>WM_DESTROYCLIPBOARD\<close> within the
  5000 ms makes no difference to the result.
\<close>

theorem C3_empty_sets_changed_flag:
  assumes "EmptyClipboard A s = (True, s')"
  shows "bCBHasChanged s' \<and> synthesized_formats s' = replicate CF_MAX 0 \<and>
         last (trace s') = Req_empty_clipboard \<and>
         (\<forall>b. EmptyClipboard (A\<lparr>SendMessageTimeoutW :=
                  \<lambda>h m t w. (b, snd (SendMessageTimeoutW A h m t w))\<rparr>) s = (True, s'))"
  using assms
  by (auto simp: EmptyClipboard_def GetClipboardOwner_def Let_def emit_def
        memset_synthesized_formats_def split: prod.splits if_splits)

lemma empty_owned: "EmptyClipboard test_arbiter (init_state world_owned) = (True, emptied_state)"
  by (simp add: EmptyClipboard_def GetClipboardOwner_def Let_def emit_def
        memset_synthesized_formats_def test_arbiter_def init_state_def world_owned_def
        STATUS_SUCCESS_def emptied_state_def)

theorem C3_witness:
  "EmptyClipboard test_arbiter (init_state world_owned) = (True, emptied_state) \<and>
   \<not> fst (SendMessageTimeoutW test_arbiter 5 WM_DESTROYCLIPBOARD 5000 world_owned) \<and>
   bCBHasChanged emptied_state \<and> synthesized_formats emptied_state = replicate CF_MAX 0 \<and>
   tw_dir (world emptied_state) = [] \<and> tw_owner (world emptied_state) = tw_open world_owned"
  using C3_empty_sets_changed_flag[OF empty_owned] empty_owned
  by (simp add: emptied_state_def test_arbiter_def world_owned_def)

text \<open>The claim as stated fails: the changed-flag, false before, is true after a
  successful \<open>EmptyClipboard\<close>, not cleared.\<close>

theorem C3_counterexample:
  "fst (EmptyClipboard test_arbiter (init_state world_owned)) \<and>
   bCBHasChanged (snd (EmptyClipboard test_arbiter (init_state world_owned))) \<and>
   \<not> bCBHasChanged (init_state world_owned)"
  by (simp add: EmptyClipboard_def GetClipboardOwner_def Let_def emit_def
        memset_synthesized_formats_def test_arbiter_def init_state_def world_owned_def
        STATUS_SUCCESS_def)



subsection \<open>Failures of the codec layer\<close>

text \<open>
  C2 (as amended). When a received payload fails the structural checks of
  \<open>unmarshal_data\<close> (bitmap, display bitmap, palette, metafile picture), the result is not
  a failure: the received bytes, trimmed to the received size, are returned as a raw memory
  handle and no object is built from them, and \<open>GetClipboardData\<close> hands that handle to the
  caller. When \<open>marshal_data\<close> fails, \<open>SetClipboardData\<close> returns no handle.
\<close>

theorem C2_failed_codec_results:
  "(validation_fails P format data sz \<longrightarrow>
      unmarshal_data P format data sz = HGLOBAL (GlobalReAlloc data sz)) \<and>
   (\<not> (format < CF_MAX \<and> synthesized_formats s ! format \<noteq> 0) \<and> GlobalAlloc_ok P 1024 \<and>
    get_clipboard_data A format 1024 (world s) = ((STATUS_SUCCESS, written, tot, owner), w') \<and>
    tot \<noteq> 0 \<and>
    validation_fails P format (take 1024 written @ replicate (1024 - length written) 0) tot \<longrightarrow>
      fst (GetClipboardData P A (Suc n) format s) =
        Returned (HGLOBAL (GlobalReAlloc (take 1024 written @ replicate (1024 - length written) 0) tot))) \<and>
   (h \<noteq> NULL \<and> marshal_data P format h = None \<longrightarrow>
      fst (SetClipboardData P A format h s) = NULL)"
proof -
  have u: "\<And>d z. validation_fails P format d z \<Longrightarrow>
      unmarshal_data P format d z = HGLOBAL (GlobalReAlloc d z)"
    by (auto simp: validation_fails_def unmarshal_data_def Let_def CF_defs split: if_splits)
  show ?thesis
    using u by (auto simp: SetClipboardData_def Let_def)
qed

lemma palette_buffer_realloc: "GlobalReAlloc palette_buffer 2 = [1, 2]"
  by (simp add: palette_buffer_def GlobalReAlloc_def)

theorem C2_witness:
  "validation_fails plat32 CF_PALETTE palette_buffer 2 \<and>
   unmarshal_data plat32 CF_PALETTE palette_buffer 2 = HGLOBAL [1, 2] \<and>
   get_clipboard_data test_arbiter CF_PALETTE 1024 (world (init_state world_palette))
     = ((STATUS_SUCCESS, [1, 2], 2, 5), world_palette) \<and>
   fst (GetClipboardData plat32 test_arbiter (Suc 0) CF_PALETTE (init_state world_palette))
     = Returned (HGLOBAL [1, 2]) \<and>
   marshal_data plat32 CF_PALETTE (HGDIOBJ 9) = None \<and>
   fst (SetClipboardData plat32 test_arbiter CF_PALETTE (HGDIOBJ 9) (init_state world_palette)) = NULL"
proof -
  note T = C2_failed_codec_results[of plat32 CF_PALETTE palette_buffer 2
      "init_state world_palette" test_arbiter "[1, 2]" 2 5 world_palette 0 "HGDIOBJ 9"]
  have b: "get_clipboard_data test_arbiter CF_PALETTE 1024 (world (init_state world_palette))
     = ((STATUS_SUCCESS, [1, 2], 2, 5), world_palette)"
    by (simp add: test_arbiter_def init_state_def world_palette_def)
  have c: "validation_fails plat32 CF_PALETTE palette_buffer 2"
    by (simp add: validation_fails_def CF_defs sizeof_LOGPALETTE_def)
  have d: "marshal_data plat32 CF_PALETTE (HGDIOBJ 9) = None"
    by (simp add: marshal_data_def plat32_def CF_defs)
  have e: "\<not> (CF_PALETTE < CF_MAX \<and> synthesized_formats (init_state world_palette) ! CF_PALETTE \<noteq> 0)"
    by (simp add: init_state_def CF_defs)
  have f: "GlobalAlloc_ok plat32 1024" by (simp add: plat32_def)
  have "(2::nat) \<noteq> 0" by simp
  with e f b c have g: "fst (GetClipboardData plat32 test_arbiter (Suc 0) CF_PALETTE (init_state world_palette))
       = Returned (HGLOBAL (GlobalReAlloc palette_buffer 2))"
    using T[THEN conjunct2, THEN conjunct1] unfolding palette_buffer_def by blast
  have h: "unmarshal_data plat32 CF_PALETTE palette_buffer 2 = HGLOBAL (GlobalReAlloc palette_buffer 2)"
    using T[THEN conjunct1] c by blast
  have i: "fst (SetClipboardData plat32 test_arbiter CF_PALETTE (HGDIOBJ 9) (init_state world_palette)) = NULL"
    using T[THEN conjunct2, THEN conjunct2] d by blast
  show ?thesis
    using b c d g h i by (simp only: palette_buffer_realloc simp_thms)
qed


text \<open>The claim as stated fails: two bytes stored as a palette, too short for the header,
  come back from \<open>GetClipboardData\<close> as a two-byte memory handle, not as a failure.\<close>

theorem C2_counterexample:
  "validation_fails plat32 CF_PALETTE ([1, 2] @ replicate 1022 0) 2 \<and>
   fst (GetClipboardData plat32 test_arbiter 1 CF_PALETTE (init_state world_palette))
     = Returned (HGLOBAL [1, 2]) \<and>
   fst (GetClipboardData plat32 test_arbiter 1 CF_PALETTE (init_state world_palette))
     \<noteq> Returned NULL"
  by (simp add: validation_fails_def unmarshal_data_def GlobalReAlloc_def Let_def
        sizeof_LOGPALETTE_def test_arbiter_def plat32_def init_state_def world_palette_def
        emit_def CF_defs STATUS_SUCCESS_def)

subsection \<open>The close-time synthesis pass\<close>

lemma IsClipboardFormatAvailable_synth:
  "synthesized_formats (snd (IsClipboardFormatAvailable A f s)) = synthesized_formats s"
  by (simp add: IsClipboardFormatAvailable_def Let_def emit_def split: prod.splits)

lemma SetClipboardData_length:
  "length (synthesized_formats (snd (SetClipboardData P A f d s))) = length (synthesized_formats s)"
  by (simp add: SetClipboardData_def Let_def emit_def split: prod.splits option.splits)

lemma SetClipboardData_other:
  "g \<noteq> f \<Longrightarrow> synthesized_formats (snd (SetClipboardData P A f d s)) ! g = synthesized_formats s ! g"
  by (simp add: SetClipboardData_def Let_def emit_def split: prod.splits option.splits)


lemma set_clipboard_locale_length:
  "length (synthesized_formats (set_clipboard_locale P A s)) = length (synthesized_formats s)"
  by (simp add: set_clipboard_locale_def SetClipboardData_length)

lemma set_clipboard_locale_other:
  "g \<noteq> CF_LOCALE \<Longrightarrow> synthesized_formats (set_clipboard_locale P A s) ! g = synthesized_formats s ! g"
  by (simp add: set_clipboard_locale_def SetClipboardData_other)

lemma add_synthesized_format_marks:
  assumes "f < CF_MAX"
  shows "\<exists>s'. add_synthesized_format P A f from s = Some s' \<and>
           length (synthesized_formats s') = length (synthesized_formats s) \<and>
           (f < length (synthesized_formats s) \<longrightarrow> synthesized_formats s' ! f = from) \<and>
           (\<forall>g. g \<noteq> f \<longrightarrow> synthesized_formats s' ! g = synthesized_formats s ! g)"
  using assms
  by (simp add: add_synthesized_format_def split_beta SetClipboardData_length SetClipboardData_other)

lemma add_unless_marks:
  assumes "f < CF_MAX"
  shows "\<exists>s'. add_unless P A has f from s = Some s' \<and>
           length (synthesized_formats s') = length (synthesized_formats s) \<and>
           (f < length (synthesized_formats s) \<longrightarrow>
              synthesized_formats s' ! f = (if has then synthesized_formats s ! f else from)) \<and>
           (\<forall>g. g \<noteq> f \<longrightarrow> synthesized_formats s' ! g = synthesized_formats s ! g)"
  using add_synthesized_format_marks[OF assms, of P A "from" s]
  by (auto simp: add_unless_def)



lemma add_unless_twice:
  assumes "f1 < CF_MAX" "f2 < CF_MAX" "f1 \<noteq> f2" "length (synthesized_formats s) = CF_MAX"
  shows "\<exists>s'. Option.bind (add_unless P A h1 f1 from s) (add_unless P A h2 f2 from) = Some s' \<and>
           synthesized_formats s' ! f1 = (if h1 then synthesized_formats s ! f1 else from) \<and>
           synthesized_formats s' ! f2 = (if h2 then synthesized_formats s ! f2 else from) \<and>
           (\<forall>g. g \<noteq> f1 \<and> g \<noteq> f2 \<longrightarrow> synthesized_formats s' ! g = synthesized_formats s ! g)"
proof -
  from add_unless_marks[OF assms(1), of P A h1 "from" s]
  obtain s1 where a1: "add_unless P A h1 f1 from s = Some s1"
    and l1: "length (synthesized_formats s1) = length (synthesized_formats s)"
    and m1: "f1 < length (synthesized_formats s) \<longrightarrow>
              synthesized_formats s1 ! f1 = (if h1 then synthesized_formats s ! f1 else from)"
    and o1: "\<forall>g. g \<noteq> f1 \<longrightarrow> synthesized_formats s1 ! g = synthesized_formats s ! g"
    by blast
  from add_unless_marks[OF assms(2), of P A h2 "from" s1]
  obtain s2 where a2: "add_unless P A h2 f2 from s1 = Some s2"
    and m2: "f2 < length (synthesized_formats s1) \<longrightarrow>
              synthesized_formats s2 ! f2 = (if h2 then synthesized_formats s1 ! f2 else from)"
    and o2: "\<forall>g. g \<noteq> f2 \<longrightarrow> synthesized_formats s2 ! g = synthesized_formats s1 ! g"
    by blast
  have b: "Option.bind (add_unless P A h1 f1 from s) (add_unless P A h2 f2 from) = Some s2"
    by (simp add: a1 a2)
  have e1: "synthesized_formats s2 ! f1 = (if h1 then synthesized_formats s ! f1 else from)"
    using o2 m1 assms(1,3,4) by simp
  have e2: "synthesized_formats s2 ! f2 = (if h2 then synthesized_formats s ! f2 else from)"
    using m2 o1 l1 assms(2,3,4) by simp
  have e3: "\<forall>g. g \<noteq> f1 \<and> g \<noteq> f2 \<longrightarrow> synthesized_formats s2 ! g = synthesized_formats s ! g"
    using o1 o2 by simp
  show ?thesis using b e1 e2 e3 by blast
qed


text \<open>
  C6. In \<open>add_synthesized_text\<close>, when at least one of plain, locale-native (OEM) and wide
  text is available, every text format that is not available is marked as synthesized from
  one source: the wide text if available, else the plain text, else the OEM text. The
  entries of the available ones are left as they were, and the pass does not fail.
\<close>

theorem C6_text_family_sources:
  assumes len: "length (synthesized_formats s) = CF_MAX"
    and t: "IsClipboardFormatAvailable A CF_TEXT s = (has_text, s1)"
    and o: "IsClipboardFormatAvailable A CF_OEMTEXT s1 = (has_oemtext, s2)"
    and u: "IsClipboardFormatAvailable A CF_UNICODETEXT s2 = (has_unicode, s3)"
    and nonempty: "has_text \<or> has_oemtext \<or> has_unicode"
    and src: "source = (if has_unicode then CF_UNICODETEXT else if has_text then CF_TEXT else CF_OEMTEXT)"
  shows "\<exists>s'. add_synthesized_text P A s = Some s' \<and>
     synthesized_formats s' ! CF_TEXT =
       (if has_text then synthesized_formats s ! CF_TEXT else source) \<and>
     synthesized_formats s' ! CF_OEMTEXT =
       (if has_oemtext then synthesized_formats s ! CF_OEMTEXT else source) \<and>
     synthesized_formats s' ! CF_UNICODETEXT =
       (if has_unicode then synthesized_formats s ! CF_UNICODETEXT else source)"
proof -
  define s4 where "s4 = snd (IsClipboardFormatAvailable A CF_LOCALE s3)"
  define hl where "hl = fst (IsClipboardFormatAvailable A CF_LOCALE s3)"
  define s5 where "s5 = (if \<not> hl then set_clipboard_locale P A s4 else s4)"
  have s3: "synthesized_formats s3 = synthesized_formats s"
    using IsClipboardFormatAvailable_synth[of A CF_TEXT s]
      IsClipboardFormatAvailable_synth[of A CF_OEMTEXT s1]
      IsClipboardFormatAvailable_synth[of A CF_UNICODETEXT s2]
    by (simp add: t o u)
  have s4: "synthesized_formats s4 = synthesized_formats s"
    using IsClipboardFormatAvailable_synth[of A CF_LOCALE s3] by (simp add: s4_def s3)
  have l5: "length (synthesized_formats s5) = CF_MAX"
    by (simp add: s5_def set_clipboard_locale_length s4 len)
  have k5: "\<And>g. g \<noteq> CF_LOCALE \<Longrightarrow> synthesized_formats s5 ! g = synthesized_formats s ! g"
    by (simp add: s5_def set_clipboard_locale_other s4)
  have unfold: "add_synthesized_text P A s =
     (if has_unicode then
        Option.bind (add_unless P A has_text CF_TEXT CF_UNICODETEXT s5)
          (add_unless P A has_oemtext CF_OEMTEXT CF_UNICODETEXT)
      else if has_text then
        Option.bind (add_unless P A has_oemtext CF_OEMTEXT CF_TEXT s5)
          (add_unless P A has_unicode CF_UNICODETEXT CF_TEXT)
      else
        Option.bind (add_unless P A has_text CF_TEXT CF_OEMTEXT s5)
          (add_unless P A has_unicode CF_UNICODETEXT CF_OEMTEXT))"
    using nonempty
    by (auto simp: add_synthesized_text_def t o u Let_def split_beta s4_def hl_def s5_def)
  show ?thesis
  proof (cases has_unicode)
    case True
    from add_unless_twice[of CF_TEXT CF_OEMTEXT s5 P A has_text CF_UNICODETEXT has_oemtext] l5
    obtain s' where "Option.bind (add_unless P A has_text CF_TEXT CF_UNICODETEXT s5)
          (add_unless P A has_oemtext CF_OEMTEXT CF_UNICODETEXT) = Some s'"
      and "synthesized_formats s' ! CF_TEXT = (if has_text then synthesized_formats s5 ! CF_TEXT else CF_UNICODETEXT)"
      and "synthesized_formats s' ! CF_OEMTEXT = (if has_oemtext then synthesized_formats s5 ! CF_OEMTEXT else CF_UNICODETEXT)"
      and "\<forall>g. g \<noteq> CF_TEXT \<and> g \<noteq> CF_OEMTEXT \<longrightarrow> synthesized_formats s' ! g = synthesized_formats s5 ! g"
      by (auto simp: CF_defs)
    then show ?thesis using True unfold src k5 by (simp add: CF_defs)
  next
    case False
    show ?thesis
    proof (cases has_text)
      case True
      from add_unless_twice[of CF_OEMTEXT CF_UNICODETEXT s5 P A has_oemtext CF_TEXT has_unicode] l5
      obtain s' where "Option.bind (add_unless P A has_oemtext CF_OEMTEXT CF_TEXT s5)
          (add_unless P A has_unicode CF_UNICODETEXT CF_TEXT) = Some s'"
        and "synthesized_formats s' ! CF_OEMTEXT = (if has_oemtext then synthesized_formats s5 ! CF_OEMTEXT else CF_TEXT)"
        and "synthesized_formats s' ! CF_UNICODETEXT = (if has_unicode then synthesized_formats s5 ! CF_UNICODETEXT else CF_TEXT)"
        and "\<forall>g. g \<noteq> CF_OEMTEXT \<and> g \<noteq> CF_UNICODETEXT \<longrightarrow> synthesized_formats s' ! g = synthesized_formats s5 ! g"
        by (auto simp: CF_defs)
      then show ?thesis using True False unfold src k5 by (simp add: CF_defs)
    next
      case nt: False
      from add_unless_twice[of CF_TEXT CF_UNICODETEXT s5 P A has_text CF_OEMTEXT has_unicode] l5
      obtain s' where "Option.bind (add_unless P A has_text CF_TEXT CF_OEMTEXT s5)
          (add_unless P A has_unicode CF_UNICODETEXT CF_OEMTEXT) = Some s'"
        and "synthesized_formats s' ! CF_TEXT = (if has_text then synthesized_formats s5 ! CF_TEXT else CF_OEMTEXT)"
        and "synthesized_formats s' ! CF_UNICODETEXT = (if has_unicode then synthesized_formats s5 ! CF_UNICODETEXT else CF_OEMTEXT)"
        and "\<forall>g. g \<noteq> CF_TEXT \<and> g \<noteq> CF_UNICODETEXT \<longrightarrow> synthesized_formats s' ! g = synthesized_formats s5 ! g"
        by (auto simp: CF_defs)
      then show ?thesis using nt False nonempty unfold src k5 by (simp add: CF_defs)
    qed
  qed
qed


lemmas eval_defs = IsClipboardFormatAvailable_def test_arbiter_def init_state_def Let_def emit_def
  STATUS_SUCCESS_def

theorem C6_witness:
  "fst (IsClipboardFormatAvailable test_arbiter CF_TEXT (init_state world_owned)) \<and>
   (\<exists>s'. add_synthesized_text plat32 test_arbiter (init_state world_owned) = Some s' \<and>
      synthesized_formats s' ! CF_TEXT = 0 \<and>
      synthesized_formats s' ! CF_OEMTEXT = CF_TEXT \<and>
      synthesized_formats s' ! CF_UNICODETEXT = CF_TEXT)"
proof -
  define s1 where "s1 = snd (IsClipboardFormatAvailable test_arbiter CF_TEXT (init_state world_owned))"
  define s2 where "s2 = snd (IsClipboardFormatAvailable test_arbiter CF_OEMTEXT s1)"
  define s3 where "s3 = snd (IsClipboardFormatAvailable test_arbiter CF_UNICODETEXT s2)"
  have w1: "world s1 = world_owned" by (simp add: s1_def eval_defs CF_defs)
  have w2: "world s2 = world_owned" by (simp add: s2_def w1 eval_defs CF_defs)
  have t: "IsClipboardFormatAvailable test_arbiter CF_TEXT (init_state world_owned) = (True, s1)"
    by (simp add: s1_def eval_defs world_owned_def CF_defs)
  have o: "IsClipboardFormatAvailable test_arbiter CF_OEMTEXT s1 = (False, s2)"
    using w1 by (simp add: s2_def eval_defs world_owned_def CF_defs)
  have u: "IsClipboardFormatAvailable test_arbiter CF_UNICODETEXT s2 = (False, s3)"
    using w2 by (simp add: s3_def eval_defs world_owned_def CF_defs)
  have len: "length (synthesized_formats (init_state world_owned)) = CF_MAX"
    by (simp add: init_state_def)
  have z: "synthesized_formats (init_state world_owned) ! CF_TEXT = 0"
    by (simp add: init_state_def CF_defs)
  show ?thesis
    using C6_text_family_sources[OF len t o u _ refl, of plat32] t z by simp
qed

subsection \<open>Fetching from the arbiter\<close>

lemma fetch_only_simps:
  "fetch_only []"
  "fetch_only (Req_get_clipboard_data f n # t) = fetch_only t"
  "fetch_only (Msg h WM_RENDERFORMAT f # t) = fetch_only t"
  "fetch_only (t @ u) = (fetch_only t \<and> fetch_only u)"
  by (auto simp: fetch_only_def is_get_request_def is_render_msg_def)

lemma render_msg_simps:
  "is_render_msg (Msg h WM_RENDERFORMAT f)"
  "\<not> is_render_msg (Req_get_clipboard_data f n)"
  by (simp_all add: is_render_msg_def)

lemma overflow_not_success: "STATUS_BUFFER_OVERFLOW \<noteq> STATUS_SUCCESS"
  by (simp add: STATUS_BUFFER_OVERFLOW_def STATUS_SUCCESS_def)

lemma fetch_loop_frame:
  "bCBHasChanged (snd (fetch_loop P A k format sz render s)) = bCBHasChanged s \<and>
   synthesized_formats (snd (fetch_loop P A k format sz render s)) = synthesized_formats s \<and>
   (\<exists>t. trace (snd (fetch_loop P A k format sz render s)) = trace s @ t \<and> fetch_only t \<and>
        length (filter is_render_msg t) \<le> (if render then 1 else 0))"
proof (induction k arbitrary: sz render s)
  case 0
  show ?case by (simp add: fetch_only_simps)
next
  case (Suc k)
  obtain status written tot owner w' where
    r: "get_clipboard_data A format sz (world s) = ((status, written, tot, owner), w')"
    by (metis prod_cases3 surj_pair)
  define s1 where "s1 = (emit (Req_get_clipboard_data format sz) s)\<lparr>world := w'\<rparr>"
  define s2 where "s2 = (emit (Msg owner WM_RENDERFORMAT format) s1)
                      \<lparr>world := SendMessageW A owner WM_RENDERFORMAT format (world s1)\<rparr>"
  have s1: "bCBHasChanged s1 = bCBHasChanged s" "synthesized_formats s1 = synthesized_formats s"
    "trace s1 = trace s @ [Req_get_clipboard_data format sz]"
    by (simp_all add: s1_def emit_def)
  have s2: "bCBHasChanged s2 = bCBHasChanged s" "synthesized_formats s2 = synthesized_formats s"
    "trace s2 = trace s @ [Req_get_clipboard_data format sz, Msg owner WM_RENDERFORMAT format]"
    by (simp_all add: s2_def s1 emit_def)
  have IHr: "\<And>rd s0. \<exists>t.
      bCBHasChanged (snd (fetch_loop P A k format tot rd s0)) = bCBHasChanged s0 \<and>
      synthesized_formats (snd (fetch_loop P A k format tot rd s0)) = synthesized_formats s0 \<and>
      trace (snd (fetch_loop P A k format tot rd s0)) = trace s0 @ t \<and> fetch_only t \<and>
      length (filter is_render_msg t) \<le> (if rd then 1 else 0)"
    using Suc.IH by blast
  show ?case
  proof (cases "GlobalAlloc_ok P sz")
    case False
    then show ?thesis by (simp add: fetch_only_simps)
  next
    case alloc: True
    show ?thesis
    proof (cases "status = STATUS_SUCCESS \<and> tot \<noteq> 0")
      case True
      then have "snd (fetch_loop P A (Suc k) format sz render s) = s1"
        using alloc r by (simp add: s1_def Let_def)
      then show ?thesis using s1 by (simp add: fetch_only_simps render_msg_simps)
    next
      case ns: False
      show ?thesis
      proof (cases "status = STATUS_BUFFER_OVERFLOW")
        case True
        then have eq: "fetch_loop P A (Suc k) format sz render s = fetch_loop P A k format tot render s1"
          using alloc r ns overflow_not_success by (simp add: s1_def Let_def)
        from IHr[of render s1] obtain t where
          "bCBHasChanged (snd (fetch_loop P A k format tot render s1)) = bCBHasChanged s1"
          "synthesized_formats (snd (fetch_loop P A k format tot render s1)) = synthesized_formats s1"
          "trace (snd (fetch_loop P A k format tot render s1)) = trace s1 @ t" "fetch_only t"
          "length (filter is_render_msg t) \<le> (if render then 1 else 0)" by blast
        then show ?thesis unfolding eq using s1
          by (intro conjI exI[of _ "Req_get_clipboard_data format sz # t"])
             (simp_all add: fetch_only_simps render_msg_simps)
      next
        case no: False
        show ?thesis
        proof (cases "status = STATUS_SUCCESS \<and> render \<and> owner \<noteq> 0")
          case True
          then have eq: "fetch_loop P A (Suc k) format sz render s = fetch_loop P A k format tot False s2"
            using alloc r ns no by (simp add: s1_def s2_def Let_def)
          from IHr[of False s2] obtain t where
            "bCBHasChanged (snd (fetch_loop P A k format tot False s2)) = bCBHasChanged s2"
            "synthesized_formats (snd (fetch_loop P A k format tot False s2)) = synthesized_formats s2"
            "trace (snd (fetch_loop P A k format tot False s2)) = trace s2 @ t" "fetch_only t"
            "length (filter is_render_msg t) \<le> 0" by auto
          then show ?thesis unfolding eq using s2 True
            by (intro conjI exI[of _ "Req_get_clipboard_data format sz # Msg owner WM_RENDERFORMAT format # t"])
               (simp_all add: fetch_only_simps render_msg_simps)
        next
          case False
          then have "snd (fetch_loop P A (Suc k) format sz render s) = s1"
            using alloc r ns no by (auto simp: s1_def Let_def)
          then show ?thesis using s1 by (simp add: fetch_only_simps render_msg_simps)
        qed
      qed
    qed
  qed
qed


lemma GetClipboardData_fetch:
  "\<not> (format < CF_MAX \<and> synthesized_formats s ! format \<noteq> 0) \<Longrightarrow>
   GetClipboardData P A (Suc n) format s = fetch_loop P A (Suc n) format 1024 True s"
  by (auto simp del: fetch_loop.simps)

text \<open>
  C8. A \<open>GetClipboardData\<close> call for a format that is not marked synthesized sends
  \<open>WM_RENDERFORMAT\<close> at most once, however long it runs. If the server has no data for
  the format and names no owner, the call returns 0 after its one request; if it names an
  owner and, after the one message to it, still has no data, the call returns 0 after the
  second request, without asking again.
\<close>

theorem C8_render_handoff_at_most_once:
  assumes ns: "\<not> (format < CF_MAX \<and> synthesized_formats s ! format \<noteq> 0)"
  shows "length (filter is_render_msg (trace (snd (GetClipboardData P A n format s))))
           \<le> length (filter is_render_msg (trace s)) + 1 \<and>
    (GlobalAlloc_ok P 1024 \<and>
     get_clipboard_data A format 1024 (world s) = ((STATUS_SUCCESS, wr0, 0, 0), w0) \<longrightarrow>
       GetClipboardData P A (Suc n) format s =
         (Returned NULL, s\<lparr>world := w0, trace := trace s @ [Req_get_clipboard_data format 1024]\<rparr>)) \<and>
    (GlobalAlloc_ok P 1024 \<and> GlobalAlloc_ok P 0 \<and> owner \<noteq> 0 \<and>
     get_clipboard_data A format 1024 (world s) = ((STATUS_SUCCESS, wr1, 0, owner), w1) \<and>
     get_clipboard_data A format 0 (SendMessageW A owner WM_RENDERFORMAT format w1)
       = ((STATUS_SUCCESS, wr2, 0, owner2), w2) \<longrightarrow>
       GetClipboardData P A (Suc (Suc n)) format s =
         (Returned NULL, s\<lparr>world := w2, trace := trace s @
            [Req_get_clipboard_data format 1024, Msg owner WM_RENDERFORMAT format,
             Req_get_clipboard_data format 0]\<rparr>))"
proof (intro conjI impI)
  show "length (filter is_render_msg (trace (snd (GetClipboardData P A n format s))))
           \<le> length (filter is_render_msg (trace s)) + 1"
  proof (cases n)
    case 0
    then show ?thesis by simp
  next
    case (Suc m)
    from fetch_loop_frame[of P A "Suc m" format 1024 True s] obtain t where
      "trace (snd (fetch_loop P A (Suc m) format 1024 True s)) = trace s @ t"
      "length (filter is_render_msg t) \<le> 1" by auto
    then show ?thesis using Suc GetClipboardData_fetch[OF ns, of P A m] by simp
  qed
next
  assume "GlobalAlloc_ok P 1024 \<and>
     get_clipboard_data A format 1024 (world s) = ((STATUS_SUCCESS, wr0, 0, 0), w0)"
  then show "GetClipboardData P A (Suc n) format s =
         (Returned NULL, s\<lparr>world := w0, trace := trace s @ [Req_get_clipboard_data format 1024]\<rparr>)"
    unfolding GetClipboardData_fetch[OF ns]
    using overflow_not_success by (simp add: Let_def emit_def)
next
  assume a: "GlobalAlloc_ok P 1024 \<and> GlobalAlloc_ok P 0 \<and> owner \<noteq> 0 \<and>
     get_clipboard_data A format 1024 (world s) = ((STATUS_SUCCESS, wr1, 0, owner), w1) \<and>
     get_clipboard_data A format 0 (SendMessageW A owner WM_RENDERFORMAT format w1)
       = ((STATUS_SUCCESS, wr2, 0, owner2), w2)"
  then show "GetClipboardData P A (Suc (Suc n)) format s =
         (Returned NULL, s\<lparr>world := w2, trace := trace s @
            [Req_get_clipboard_data format 1024, Msg owner WM_RENDERFORMAT format,
             Req_get_clipboard_data format 0]\<rparr>)"
    unfolding GetClipboardData_fetch[OF ns]
    using overflow_not_success by (simp add: Let_def emit_def)
qed


theorem C8_witness:
  "\<not> (CF_DIB < CF_MAX \<and> synthesized_formats (init_state (world_promised 5)) ! CF_DIB \<noteq> 0) \<and>
   GetClipboardData plat32 test_arbiter (Suc (Suc 0)) CF_DIB (init_state (world_promised 5)) =
     (Returned NULL, (init_state (world_promised 5))\<lparr>trace :=
        [Req_get_clipboard_data CF_DIB 1024, Msg 5 WM_RENDERFORMAT CF_DIB,
         Req_get_clipboard_data CF_DIB 0]\<rparr>) \<and>
   GetClipboardData plat32 test_arbiter (Suc 0) CF_DIB (init_state (world_promised 0)) =
     (Returned NULL, (init_state (world_promised 0))\<lparr>trace := [Req_get_clipboard_data CF_DIB 1024]\<rparr>)"
proof -
  have n5: "\<not> (CF_DIB < CF_MAX \<and> synthesized_formats (init_state (world_promised 5)) ! CF_DIB \<noteq> 0)"
    by (simp add: init_state_def CF_defs)
  have n0: "\<not> (CF_DIB < CF_MAX \<and> synthesized_formats (init_state (world_promised 0)) ! CF_DIB \<noteq> 0)"
    by (simp add: init_state_def CF_defs)
  have al: "GlobalAlloc_ok plat32 1024" "GlobalAlloc_ok plat32 0" by (simp_all add: plat32_def)
  have r0: "get_clipboard_data test_arbiter CF_DIB 1024 (world (init_state (world_promised 0)))
      = ((STATUS_SUCCESS, [], 0, 0), world_promised 0)"
    by (simp add: test_arbiter_def init_state_def world_promised_def)
  have r1: "get_clipboard_data test_arbiter CF_DIB 1024 (world (init_state (world_promised 5)))
      = ((STATUS_SUCCESS, [], 0, 5), world_promised 5)"
    by (simp add: test_arbiter_def init_state_def world_promised_def)
  have r2: "get_clipboard_data test_arbiter CF_DIB 0
       (SendMessageW test_arbiter 5 WM_RENDERFORMAT CF_DIB (world_promised 5))
      = ((STATUS_SUCCESS, [], 0, 5), world_promised 5)"
    by (simp add: test_arbiter_def world_promised_def)
  have five: "(5::nat) \<noteq> 0" by simp
  note T5 = C8_render_handoff_at_most_once[OF n5, of plat32 test_arbiter 0 _ _ 5 "[]"
       "world_promised 5" "[]" 5 "world_promised 5", THEN conjunct2, THEN conjunct2, rule_format]
  note T0 = C8_render_handoff_at_most_once[OF n0, of plat32 test_arbiter 0 "[]" "world_promised 0",
       THEN conjunct2, THEN conjunct1, rule_format]
  have a: "GetClipboardData plat32 test_arbiter (Suc (Suc 0)) CF_DIB (init_state (world_promised 5)) =
     (Returned NULL, (init_state (world_promised 5))\<lparr>world := world_promised 5, trace :=
        trace (init_state (world_promised 5)) @
        [Req_get_clipboard_data CF_DIB 1024, Msg 5 WM_RENDERFORMAT CF_DIB,
         Req_get_clipboard_data CF_DIB 0]\<rparr>)"
    using T5 al five r1 r2 by blast
  have b: "GetClipboardData plat32 test_arbiter (Suc 0) CF_DIB (init_state (world_promised 0)) =
     (Returned NULL, (init_state (world_promised 0))\<lparr>world := world_promised 0,
        trace := trace (init_state (world_promised 0)) @ [Req_get_clipboard_data CF_DIB 1024]\<rparr>)"
    using T0 al r0 by blast
  show ?thesis using n5 a b by (simp add: init_state_def)
qed

subsection \<open>Rendering once\<close>


















lemma unmarshal_data_realloc:
  "GlobalReAlloc d n = GlobalReAlloc d' n \<Longrightarrow> unmarshal_data P f d n = unmarshal_data P f d' n"
  by (simp add: unmarshal_data_def)

lemma fetch_only_no_rendering: "fetch_only t \<Longrightarrow> filter (is_rendering f) t = []"
  by (auto simp: fetch_only_def is_rendering_def is_get_request_def is_render_msg_def
        filter_empty_conv split: event.splits)

lemma fetch_loop_held:
  assumes hold: "arbiter_holds A (world s) f payload" and ne: "payload \<noteq> []"
    and alloc: "GlobalAlloc_ok P 1024" "GlobalAlloc_ok P (length payload)"
  shows "fst (fetch_loop P A (Suc (Suc k)) f 1024 render s)
           = Returned (unmarshal_data P f payload (length payload)) \<and>
         world (snd (fetch_loop P A (Suc (Suc k)) f 1024 render s)) = world s"
proof -
  have h: "\<And>sz. \<exists>owner. get_clipboard_data A f sz (world s) =
       (if length payload \<le> sz then ((STATUS_SUCCESS, payload, length payload, owner), world s)
        else ((STATUS_BUFFER_OVERFLOW, [], length payload, owner), world s))"
    using hold by (simp add: arbiter_holds_def)
  have len: "length payload \<noteq> 0" using ne by simp
  show ?thesis
  proof (cases "length payload \<le> 1024")
    case True
    from h[of 1024] True obtain owner where
      r: "get_clipboard_data A f 1024 (world s) = ((STATUS_SUCCESS, payload, length payload, owner), world s)"
      by auto
    have re: "GlobalReAlloc (take 1024 payload @ replicate (1024 - length payload) 0) (length payload)
               = GlobalReAlloc payload (length payload)"
      using True by (simp add: GlobalReAlloc_def)
    show ?thesis
      using alloc(1) len unmarshal_data_realloc[OF re, of P f]
      by (simp add: r Let_def emit_def)
  next
    case False
    from h[of 1024] False obtain owner where
      r1: "get_clipboard_data A f 1024 (world s) = ((STATUS_BUFFER_OVERFLOW, [], length payload, owner), world s)"
      by auto
    from h[of "length payload"] obtain owner2 where
      r2: "get_clipboard_data A f (length payload) (world s) = ((STATUS_SUCCESS, payload, length payload, owner2), world s)"
      by auto
    have re: "GlobalReAlloc (take (length payload) payload @ replicate (length payload - length payload) 0)
                 (length payload) = GlobalReAlloc payload (length payload)"
      by simp
    show ?thesis
      using alloc len overflow_not_success unmarshal_data_realloc[OF re, of P f]
      by (simp add: r1 r2 Let_def emit_def)
  qed
qed

lemma plat32_sel:
  "GlobalAlloc_ok plat32 n" "HeapAlloc_ok plat32 n"
  "GetUserDefaultLCID plat32 = 1033" "GetLocaleInfoW plat32 l ty = None"
  "WideCharToMultiByte plat32 cp ws = map ucast ws"
  "MultiByteToWideChar plat32 cp bs = map ucast bs"
  by (simp_all add: plat32_def)

lemma test_arbiter_sel:
  "get_clipboard_data test_arbiter format sz w =
     (case map_of (tw_dir w) format of
        None \<Rightarrow> ((STATUS_OBJECT_NAME_NOT_FOUND, [], 0, tw_owner w), w)
      | Some payload \<Rightarrow>
          if length payload \<le> sz then ((STATUS_SUCCESS, payload, length payload, tw_owner w), w)
          else ((STATUS_BUFFER_OVERFLOW, [], length payload, tw_owner w), w))"
  "set_clipboard_data test_arbiter format payload w =
     (STATUS_SUCCESS, w\<lparr>tw_dir := (format, payload) # filter (\<lambda>e. fst e \<noteq> format) (tw_dir w)\<rparr>)"
  "SendMessageW test_arbiter h m p w = w"
  by (simp_all add: test_arbiter_def)


















subsection \<open>Storing over a synthesized format\<close>

lemma fetch_loop_first_request:
  assumes alloc: "GlobalAlloc_ok P sz"
  shows "\<exists>t. trace (snd (fetch_loop P A (Suc k) format sz render s))
               = trace s @ Req_get_clipboard_data format sz # t \<and> fetch_only t"
proof -
  obtain status written tot owner w' where
    r: "get_clipboard_data A format sz (world s) = ((status, written, tot, owner), w')"
    by (metis prod_cases3 surj_pair)
  define s1 where "s1 = (emit (Req_get_clipboard_data format sz) s)\<lparr>world := w'\<rparr>"
  define s2 where "s2 = (emit (Msg owner WM_RENDERFORMAT format) s1)
                      \<lparr>world := SendMessageW A owner WM_RENDERFORMAT format (world s1)\<rparr>"
  have s1: "trace s1 = trace s @ [Req_get_clipboard_data format sz]"
    by (simp add: s1_def emit_def)
  have s2: "trace s2 = trace s @ [Req_get_clipboard_data format sz, Msg owner WM_RENDERFORMAT format]"
    by (simp add: s2_def s1 emit_def)
  have fr: "\<And>rd s0. \<exists>t. trace (snd (fetch_loop P A k format tot rd s0)) = trace s0 @ t \<and> fetch_only t"
    using fetch_loop_frame by blast
  show ?thesis
  proof (cases "status = STATUS_SUCCESS \<and> tot \<noteq> 0")
    case True
    then have "snd (fetch_loop P A (Suc k) format sz render s) = s1"
      using alloc r by (simp add: s1_def Let_def)
    then show ?thesis using s1 by (simp add: fetch_only_simps)
  next
    case ns: False
    show ?thesis
    proof (cases "status = STATUS_BUFFER_OVERFLOW")
      case True
      then have eq: "fetch_loop P A (Suc k) format sz render s = fetch_loop P A k format tot render s1"
        using alloc r ns overflow_not_success by (simp add: s1_def Let_def)
      from fr[of render s1] obtain t where
        "trace (snd (fetch_loop P A k format tot render s1)) = trace s1 @ t" "fetch_only t" by blast
      then show ?thesis unfolding eq using s1 by simp
    next
      case no: False
      show ?thesis
      proof (cases "status = STATUS_SUCCESS \<and> render \<and> owner \<noteq> 0")
        case True
        then have eq: "fetch_loop P A (Suc k) format sz render s = fetch_loop P A k format tot False s2"
          using alloc r ns no by (simp add: s1_def s2_def Let_def)
        from fr[of False s2] obtain t where
          "trace (snd (fetch_loop P A k format tot False s2)) = trace s2 @ t" "fetch_only t" by blast
        then show ?thesis unfolding eq using s2
          by (intro exI[of _ "Msg owner WM_RENDERFORMAT format # t"]) (simp add: fetch_only_simps)
      next
        case False
        then have "snd (fetch_loop P A (Suc k) format sz render s) = s1"
          using alloc r ns no by (auto simp: s1_def Let_def)
        then show ?thesis using s1 by (simp add: fetch_only_simps)
      qed
    qed
  qed
qed

lemma SetClipboardData_success:
  assumes call: "SetClipboardData P A format data s = (h, s')"
    and success: "(data \<noteq> NULL \<and> h \<noteq> NULL) \<or>
                  (data = NULL \<and> fst (set_clipboard_data A format [] (world s)) = STATUS_SUCCESS)"
  shows "trace s' = trace s @ [Req_set_clipboard_data format (sent_payload P format data) STATUS_SUCCESS] \<and>
         world s' = snd (set_clipboard_data A format (sent_payload P format data) (world s)) \<and>
         h = data \<and>
         synthesized_formats s' =
           (if format < CF_MAX then (synthesized_formats s)[format := 0] else synthesized_formats s)"
  using call success
  by (auto simp: SetClipboardData_def sent_payload_def Let_def emit_def
        split: option.splits prod.splits if_splits)


text \<open>
  C9. A successful \<open>SetClipboardData\<close> on a format below \<open>CF_MAX\<close> (a handle was returned,
  or, for a null handle, the arbiter accepted the registration) has sent its payload in one
  accepted \<open>set_clipboard_data\<close> request and leaves the entry of that format at 0, so the
  format is not marked synthesized while it has fresh data. A read of it right after starts
  no conversion: it is the fetch loop, whose first act is a \<open>get_clipboard_data\<close> request
  for the format, and while the arbiter holds the payload that was sent the read returns
  exactly those bytes, unmarshalled.
\<close>

theorem C9_store_clears_marking:
  assumes lt: "format < CF_MAX" and wf: "length (synthesized_formats s) = CF_MAX"
    and call: "SetClipboardData P A format data s = (h, s')"
    and success: "(data \<noteq> NULL \<and> h \<noteq> NULL) \<or>
                  (data = NULL \<and> fst (set_clipboard_data A format [] (world s)) = STATUS_SUCCESS)"
  shows "synthesized_formats s' ! format = 0 \<and>
         (\<forall>n. GetClipboardData P A (Suc n) format s' = fetch_loop P A (Suc n) format 1024 True s') \<and>
         (\<forall>n. filter (is_rendering format) (trace (snd (GetClipboardData P A n format s')))
                = filter (is_rendering format) (trace s')) \<and>
         trace s' = trace s @
           [Req_set_clipboard_data format (sent_payload P format data) STATUS_SUCCESS] \<and>
         world s' = snd (set_clipboard_data A format (sent_payload P format data) (world s)) \<and>
         (\<forall>n. GlobalAlloc_ok P 1024 \<longrightarrow>
            (\<exists>t. trace (snd (GetClipboardData P A (Suc n) format s'))
                   = trace s' @ Req_get_clipboard_data format 1024 # t \<and> fetch_only t)) \<and>
         (\<forall>n. arbiter_holds A (world s') format (sent_payload P format data) \<and>
              sent_payload P format data \<noteq> [] \<and>
              GlobalAlloc_ok P 1024 \<and> GlobalAlloc_ok P (length (sent_payload P format data)) \<longrightarrow>
            fst (GetClipboardData P A (Suc (Suc n)) format s') =
              Returned (unmarshal_data P format (sent_payload P format data)
                          (length (sent_payload P format data))) \<and>
            world (snd (GetClipboardData P A (Suc (Suc n)) format s')) = world s')"
proof -
  note sc = SetClipboardData_success[OF call success]
  have z: "synthesized_formats s' ! format = 0"
    using sc lt wf by simp
  then have ns: "\<not> (format < CF_MAX \<and> synthesized_formats s' ! format \<noteq> 0)" by simp
  note eq = GetClipboardData_fetch[OF ns]
  have quiet: "filter (is_rendering format) (trace (snd (GetClipboardData P A n format s')))
                = filter (is_rendering format) (trace s')" for n
  proof (cases n)
    case 0
    then show ?thesis by simp
  next
    case (Suc m)
    from fetch_loop_frame[of P A "Suc m" format 1024 True s'] obtain t where
      "trace (snd (fetch_loop P A (Suc m) format 1024 True s')) = trace s' @ t" "fetch_only t"
      by blast
    then show ?thesis
      unfolding Suc eq using fetch_only_no_rendering[of t format] by simp
  qed
  have req: "GlobalAlloc_ok P 1024 \<longrightarrow>
            (\<exists>t. trace (snd (GetClipboardData P A (Suc n) format s'))
                   = trace s' @ Req_get_clipboard_data format 1024 # t \<and> fetch_only t)" for n
    unfolding eq using fetch_loop_first_request[of P 1024 A n format True s'] by blast
  have stored: "arbiter_holds A (world s') format (sent_payload P format data) \<and>
              sent_payload P format data \<noteq> [] \<and>
              GlobalAlloc_ok P 1024 \<and> GlobalAlloc_ok P (length (sent_payload P format data)) \<longrightarrow>
            fst (GetClipboardData P A (Suc (Suc n)) format s') =
              Returned (unmarshal_data P format (sent_payload P format data)
                          (length (sent_payload P format data))) \<and>
            world (snd (GetClipboardData P A (Suc (Suc n)) format s')) = world s'" for n
    unfolding eq using fetch_loop_held[of A s' format "sent_payload P format data" P n True] by blast
  show ?thesis
    using z eq quiet sc req stored by blast
qed

lemma marshal_oem: "marshal_data plat32 CF_OEMTEXT (HGLOBAL [65, 0]) = Some (HGLOBAL [65, 0], 2)"
  by (simp add: marshal_data_def GlobalSize_def CF_defs)

lemma sent_oem: "sent_payload plat32 CF_OEMTEXT (HGLOBAL [65, 0]) = [65, 0]"
  by (simp add: sent_payload_def marshal_oem GlobalLock_def)

lemma store_oem:
  "SetClipboardData plat32 test_arbiter CF_OEMTEXT (HGLOBAL [65, 0]) (dirty_state world0)
     = (HGLOBAL [65, 0], stored_oem_state)"
  by (simp add: SetClipboardData_def marshal_oem GlobalLock_def test_arbiter_sel Let_def emit_def
        dirty_state_def world0_def stored_oem_state_def)
     (simp add: CF_defs)

theorem C9_witness:
  "synthesized_formats (dirty_state world0) ! CF_OEMTEXT = CF_TEXT \<and>
   SetClipboardData plat32 test_arbiter CF_OEMTEXT (HGLOBAL [65, 0]) (dirty_state world0)
     = (HGLOBAL [65, 0], stored_oem_state) \<and>
   synthesized_formats stored_oem_state ! CF_OEMTEXT = 0 \<and>
   arbiter_holds test_arbiter (world stored_oem_state) CF_OEMTEXT [65, 0] \<and>
   fst (GetClipboardData plat32 test_arbiter (Suc (Suc 0)) CF_OEMTEXT stored_oem_state)
     = Returned (HGLOBAL [65, 0]) \<and>
   (\<exists>t. trace (snd (GetClipboardData plat32 test_arbiter (Suc 0) CF_OEMTEXT stored_oem_state))
          = trace stored_oem_state @ Req_get_clipboard_data CF_OEMTEXT 1024 # t)"
proof -
  have lt: "CF_OEMTEXT < CF_MAX" by (simp add: CF_defs)
  have wf: "length (synthesized_formats (dirty_state world0)) = CF_MAX" by (simp add: dirty_state_def)
  have ok: "HGLOBAL [65, 0] \<noteq> NULL \<and> HGLOBAL [65, 0] \<noteq> NULL \<or>
            HGLOBAL [65, 0] = NULL \<and>
            fst (set_clipboard_data test_arbiter CF_OEMTEXT [] (world (dirty_state world0))) = STATUS_SUCCESS"
    by simp
  note T = C9_store_clears_marking[OF lt wf store_oem ok]
  have d: "synthesized_formats (dirty_state world0) ! CF_OEMTEXT = CF_TEXT"
    by (simp add: dirty_state_def CF_defs)
  have z: "synthesized_formats stored_oem_state ! CF_OEMTEXT = 0" using T by (rule conjunct1)
  have hold: "arbiter_holds test_arbiter (world stored_oem_state) CF_OEMTEXT [65, 0]"
    by (simp add: arbiter_holds_def test_arbiter_sel stored_oem_state_def)
  have ne: "[65, 0 :: byte] \<noteq> []" by simp
  have stored: "fst (GetClipboardData plat32 test_arbiter (Suc (Suc 0)) CF_OEMTEXT stored_oem_state)
       = Returned (unmarshal_data plat32 CF_OEMTEXT [65, 0] (length [65, 0 :: byte]))"
    using T[THEN conjunct2, THEN conjunct2, THEN conjunct2, THEN conjunct2, THEN conjunct2,
            THEN conjunct2, rule_format, of 0] hold ne plat32_sel(1)
    unfolding sent_oem by blast
  have u: "unmarshal_data plat32 CF_OEMTEXT [65, 0] (length [65, 0 :: byte]) = HGLOBAL [65, 0]"
    by (simp add: unmarshal_data_def GlobalReAlloc_def CF_defs)
  have req: "\<exists>t. trace (snd (GetClipboardData plat32 test_arbiter (Suc 0) CF_OEMTEXT stored_oem_state))
          = trace stored_oem_state @ Req_get_clipboard_data CF_OEMTEXT 1024 # t"
    using T[THEN conjunct2, THEN conjunct2, THEN conjunct2, THEN conjunct2, THEN conjunct2,
            THEN conjunct1, rule_format, of 0] plat32_sel(1)
    by blast
  show ?thesis using d store_oem z hold stored req by (simp only: u simp_thms)
qed

end
